theory Spec2Isabelle
  imports Complex_Main "HOL-Library.Log_Nat"
begin

section \<open>Python values read by the wrapper\<close>

text \<open>
  The source is \<^verbatim>\<open>src/services/openai_wrapper.py\<close>: the class \<^verbatim>\<open>OpenAIWrapper\<close> with its
  constructor and its one method \<^verbatim>\<open>query\<close>. The method probes a loosely typed response
  object with \<^verbatim>\<open>getattr\<close>, \<^verbatim>\<open>hasattr\<close> and \<^verbatim>\<open>isinstance\<close>, so the model keeps Python's
  dynamic typing: a value is \<^verbatim>\<open>None\<close>, a bool, an int (unbounded), a float, a str, a list
  or a plain object carrying named attributes (an association list; the first binding of
  a name is the attribute's value). Strings are \<^typ>\<open>string\<close>, so the text is limited to
  code points below 256.

  A Python float is an IEEE 754 binary64 number. A finite one is represented by the
  rational number it denotes; the sign of zero is not represented (\<^verbatim>\<open>0.0 == -0.0\<close> in
  Python, and nothing in the source divides by a zero or prints its sign).
\<close>

datatype pyfloat = Finite rat | PInf | NInf | NaN

datatype pyval =
    PNone
  | PBool bool
  | PInt int
  | PFloat pyfloat
  | PStr string
  | PList "pyval list"
  | PObj "(string \<times> pyval) list"

text \<open>
  The exceptions that the method, its collaborator or its output stream can raise.
  \<open>ClientError\<close> stands for whatever error the OpenAI client raises (transport failure,
  timeout, HTTP error), with its message; \<open>UnicodeEncodeError\<close> is what writing a
  character that the stream cannot encode raises. \<open>KeyboardInterrupt\<close>, \<open>SystemExit\<close>
  and \<open>GeneratorExit\<close> derive from \<^verbatim>\<open>BaseException\<close> only; all others are of class
  \<^verbatim>\<open>Exception\<close>, which is what \<open>is_Exception\<close> says.
\<close>

datatype exn =
    AttributeError
  | TypeError
  | KeyError
  | OverflowError
  | ZeroDivisionError
  | ValueError string
  | UnicodeEncodeError
  | ClientError string
  | KeyboardInterrupt
  | SystemExit
  | GeneratorExit

fun is_Exception :: "exn \<Rightarrow> bool" where
  "is_Exception KeyboardInterrupt = False"
| "is_Exception SystemExit = False"
| "is_Exception GeneratorExit = False"
| "is_Exception e = True"

definition ebind :: "exn + 'a \<Rightarrow> ('a \<Rightarrow> exn + 'b) \<Rightarrow> exn + 'b" where
  "ebind m f = (case m of Inl e \<Rightarrow> Inl e | Inr x \<Rightarrow> f x)"

subsection \<open>Binary64 arithmetic\<close>

text \<open>
  \<open>round_half_even\<close> rounds a rational to the nearest integer, ties to the even one.
  \<open>binade x\<close> is the exponent \<open>b\<close> with \<open>2 ^ b \<le> |x| < 2 ^ (b + 1)\<close>, computed from the
  bit lengths of numerator and denominator. \<open>fl x\<close> is the binary64 number nearest to
  \<open>x\<close>: 53 significant bits, least exponent \<open>-1074\<close> (subnormals), ties to even, and an
  infinity once the rounded value reaches \<open>2 ^ 1024\<close>.
\<close>

definition round_half_even :: "rat \<Rightarrow> int" where
  "round_half_even x =
     (let f = \<lfloor>x\<rfloor>; d = x - of_int f
      in if d < 1 / 2 then f else if 1 / 2 < d then f + 1
         else if even f then f else f + 1)"

definition binade :: "rat \<Rightarrow> int" where
  "binade x =
     (case quotient_of \<bar>x\<bar> of (p, q) \<Rightarrow>
        let d = bitlen p - bitlen q in if 2 powi d \<le> \<bar>x\<bar> then d else d - 1)"

definition fl :: "rat \<Rightarrow> pyfloat" where
  "fl x =
     (if x = 0 then Finite 0
      else let e = max (binade x - 52) (- 1074);
               v = of_int (round_half_even (x / 2 powi e)) * 2 powi e
           in if 2 powi 1024 \<le> v then PInf
              else if v \<le> - (2 powi 1024) then NInf
              else Finite v)"

fun is_finite :: "pyfloat \<Rightarrow> bool" where
  "is_finite (Finite v) = True"
| "is_finite f = False"

fun is_neg :: "pyfloat \<Rightarrow> bool" where
  "is_neg (Finite v) = (v < 0)"
| "is_neg NInf = True"
| "is_neg f = False"

definition signed_inf :: "bool \<Rightarrow> pyfloat" where
  "signed_inf neg = (if neg then NInf else PInf)"

fun fneg :: "pyfloat \<Rightarrow> pyfloat" where
  "fneg (Finite v) = Finite (- v)"
| "fneg PInf = NInf"
| "fneg NInf = PInf"
| "fneg NaN = NaN"

fun fadd :: "pyfloat \<Rightarrow> pyfloat \<Rightarrow> pyfloat" where
  "fadd NaN g = NaN"
| "fadd f NaN = NaN"
| "fadd (Finite a) (Finite b) = fl (a + b)"
| "fadd PInf NInf = NaN"
| "fadd NInf PInf = NaN"
| "fadd (Finite a) g = g"
| "fadd f g = f"

definition fsub :: "pyfloat \<Rightarrow> pyfloat \<Rightarrow> pyfloat" where
  "fsub f g = fadd f (fneg g)"

fun fmul :: "pyfloat \<Rightarrow> pyfloat \<Rightarrow> pyfloat" where
  "fmul NaN g = NaN"
| "fmul f NaN = NaN"
| "fmul (Finite a) (Finite b) = fl (a * b)"
| "fmul (Finite a) g = (if a = 0 then NaN else signed_inf ((a < 0) \<noteq> is_neg g))"
| "fmul f (Finite b) = (if b = 0 then NaN else signed_inf (is_neg f \<noteq> (b < 0)))"
| "fmul f g = signed_inf (is_neg f \<noteq> is_neg g)"

text \<open>
  IEEE division. Python raises \<^verbatim>\<open>ZeroDivisionError\<close> before dividing by a zero
  (\<open>py_fdiv\<close> below), so the quotient by zero is never observed; it is given the IEEE
  value for a positive zero.
\<close>

fun fdiv :: "pyfloat \<Rightarrow> pyfloat \<Rightarrow> pyfloat" where
  "fdiv NaN g = NaN"
| "fdiv f NaN = NaN"
| "fdiv (Finite a) (Finite b) =
     (if b = 0 then (if a = 0 then NaN else signed_inf (a < 0)) else fl (a / b))"
| "fdiv (Finite a) g = Finite 0"
| "fdiv f (Finite b) = signed_inf (is_neg f \<noteq> (b < 0))"
| "fdiv f g = NaN"

definition py_fdiv :: "pyfloat \<Rightarrow> pyfloat \<Rightarrow> exn + pyfloat" where
  "py_fdiv f g = (if g = Finite 0 then Inl ZeroDivisionError else Inr (fdiv f g))"

text \<open>
  Conversion of an int to a float (\<^verbatim>\<open>PyLong_AsDouble\<close>): correctly rounded, and
  \<^verbatim>\<open>OverflowError\<close> when the int is too large for a finite float.
\<close>

definition float_of_int :: "int \<Rightarrow> pyfloat" where
  "float_of_int n = fl (of_int n)"

definition to_float :: "int \<Rightarrow> exn + pyfloat" where
  "to_float n = (if is_finite (float_of_int n) then Inr (float_of_int n) else Inl OverflowError)"

text \<open>
  \<^verbatim>\<open>round(x, 6)\<close> on a float: an infinity or a NaN is returned as it is; a finite \<open>x\<close> is
  rounded to 6 decimals on its exact value, ties to even, and the decimal result is read
  back as the nearest float. Python raises \<^verbatim>\<open>OverflowError\<close> if that float is infinite.
\<close>

fun round6 :: "pyfloat \<Rightarrow> pyfloat" where
  "round6 (Finite v) = fl (of_int (round_half_even (v * 1000000)) / 1000000)"
| "round6 f = f"

definition py_round6 :: "pyfloat \<Rightarrow> exn + pyfloat" where
  "py_round6 f =
     (if is_finite f \<and> \<not> is_finite (round6 f) then Inl OverflowError else Inr (round6 f))"

subsection \<open>Attribute access, truth values, iteration\<close>

text \<open>
  \<open>attr v n\<close> is the attribute \<open>n\<close> of \<open>v\<close> if it has one (\<^verbatim>\<open>hasattr(v, n)\<close> is
  \<open>attr v n \<noteq> None\<close>). None of the attribute names the source asks for exists on
  \<^verbatim>\<open>None\<close>, a bool, an int, a float, a str or a list.
\<close>

fun attr :: "pyval \<Rightarrow> string \<Rightarrow> pyval option" where
  "attr (PObj fs) n = map_of fs n"
| "attr v n = None"

text \<open>\<^verbatim>\<open>v.n\<close> raises \<^verbatim>\<open>AttributeError\<close>; \<^verbatim>\<open>getattr(v, n, d)\<close> returns the default.\<close>

definition getattr :: "pyval \<Rightarrow> string \<Rightarrow> exn + pyval" where
  "getattr v n = (case attr v n of None \<Rightarrow> Inl AttributeError | Some x \<Rightarrow> Inr x)"

definition getattr_default :: "pyval \<Rightarrow> string \<Rightarrow> pyval \<Rightarrow> pyval" where
  "getattr_default v n d = (case attr v n of None \<Rightarrow> d | Some x \<Rightarrow> x)"

fun truthy :: "pyval \<Rightarrow> bool" where
  "truthy PNone = False"
| "truthy (PBool b) = b"
| "truthy (PInt n) = (n \<noteq> 0)"
| "truthy (PFloat f) = (f \<noteq> Finite 0)"
| "truthy (PStr s) = (s \<noteq> [])"
| "truthy (PList xs) = (xs \<noteq> [])"
| "truthy (PObj fs) = True"

definition py_or :: "pyval \<Rightarrow> pyval \<Rightarrow> pyval" where
  "py_or a b = (if truthy a then a else b)"

text \<open>
  \<^verbatim>\<open>for m in v\<close>: a list yields its items, a str its characters as one-character
  strings, anything else raises \<^verbatim>\<open>TypeError\<close> (not iterable).
\<close>

fun iter :: "pyval \<Rightarrow> exn + pyval list" where
  "iter (PList xs) = Inr xs"
| "iter (PStr s) = Inr (map (\<lambda>c. PStr [c]) s)"
| "iter v = Inl TypeError"

subsection \<open>Strings\<close>

text \<open>
  \<^verbatim>\<open>str.strip()\<close> removes the characters for which \<^verbatim>\<open>str.isspace\<close> holds from both ends;
  below 256 these are the code points 9 to 13, 28 to 32, 133 and 160.
\<close>

definition isspace :: "char \<Rightarrow> bool" where
  "isspace c =
     (let n = (of_char c :: nat)
      in (9 \<le> n \<and> n \<le> 13) \<or> (28 \<le> n \<and> n \<le> 32) \<or> n = 133 \<or> n = 160)"

definition strip :: "string \<Rightarrow> string" where
  "strip s = rev (dropWhile isspace (rev (dropWhile isspace s)))"

text \<open>
  \<^verbatim>\<open>"".join(p.text for p in parts if hasattr(p, "text"))\<close>: parts without the attribute
  are skipped; an attribute that is not a str makes \<^verbatim>\<open>join\<close> raise \<^verbatim>\<open>TypeError\<close>.
\<close>

fun join_text :: "pyval list \<Rightarrow> exn + string" where
  "join_text [] = Inr []"
| "join_text (p # ps) =
     (case attr p ''text'' of
        None \<Rightarrow> join_text ps
      | Some (PStr s) \<Rightarrow> ebind (join_text ps) (\<lambda>t. Inr (s @ t))
      | Some v \<Rightarrow> Inl TypeError)"

subsection \<open>Arithmetic on values\<close>

text \<open>
  Python's numeric operators on the values the usage counters can hold. A bool is an int.
  With a float operand the other operand is converted to float first (\<^verbatim>\<open>OverflowError\<close>
  when it does not fit); any other operand type raises \<^verbatim>\<open>TypeError\<close>.
\<close>

fun int_of :: "pyval \<Rightarrow> int option" where
  "int_of (PBool b) = Some (if b then 1 else 0)"
| "int_of (PInt n) = Some n"
| "int_of v = None"

fun py_float :: "pyval \<Rightarrow> exn + pyfloat" where
  "py_float (PBool b) = to_float (if b then 1 else 0)"
| "py_float (PInt n) = to_float n"
| "py_float (PFloat f) = Inr f"
| "py_float v = Inl TypeError"

definition py_sub :: "pyval \<Rightarrow> pyval \<Rightarrow> exn + pyval" where
  "py_sub a b =
     (case (int_of a, int_of b) of
        (Some x, Some y) \<Rightarrow> Inr (PInt (x - y))
      | _ \<Rightarrow> ebind (py_float a) (\<lambda>f. ebind (py_float b) (\<lambda>g. Inr (PFloat (fsub f g)))))"

definition py_add :: "pyval \<Rightarrow> pyval \<Rightarrow> exn + pyval" where
  "py_add a b =
     (case (int_of a, int_of b) of
        (Some x, Some y) \<Rightarrow> Inr (PInt (x + y))
      | _ \<Rightarrow> ebind (py_float a) (\<lambda>f. ebind (py_float b) (\<lambda>g. Inr (PFloat (fadd f g)))))"

text \<open>\<^verbatim>\<open>max(0, v)\<close> for a number \<open>v\<close>: \<open>v\<close> when \<^verbatim>\<open>v > 0\<close>, else the int \<open>0\<close>.\<close>

fun py_gt0 :: "pyval \<Rightarrow> bool" where
  "py_gt0 (PBool b) = b"
| "py_gt0 (PInt n) = (0 < n)"
| "py_gt0 (PFloat (Finite v)) = (0 < v)"
| "py_gt0 (PFloat PInf) = True"
| "py_gt0 v = False"

definition py_max0 :: "pyval \<Rightarrow> pyval" where
  "py_max0 v = (if py_gt0 v then v else PInt 0)"

section \<open>The wrapper\<close>

subsection \<open>Class constants\<close>

text \<open>
  \<^verbatim>\<open>_PRICING\<close> (USD per million tokens, input and output rate) and
  \<^verbatim>\<open>_WEB_SEARCH_COST_PER_CALL\<close>. A decimal literal denotes the nearest float.
\<close>

definition PRICING :: "(string \<times> pyfloat \<times> pyfloat) list" where
  "PRICING =
     [(''gpt-5'', (fl (1250 / 1000), fl (10000 / 1000))),
      (''gpt-5-mini'', (fl (250 / 1000), fl (2000 / 1000))),
      (''gpt-5-nano'', (fl (50 / 1000), fl (400 / 1000)))]"

definition WEB_SEARCH_COST_PER_CALL :: pyfloat where
  "WEB_SEARCH_COST_PER_CALL = fl (1 / 100)"

definition lit_1e6 :: pyfloat where
  "lit_1e6 = fl 1000000"

subsection \<open>Construction\<close>

text \<open>
  \<^verbatim>\<open>__init__(api_key=None, timeout=1000)\<close>. \<open>load_dotenv\<close> is the effect of the library
  call of that name on the process environment, and \<open>environ\<close> the environment before
  it; \<^verbatim>\<open>os.getenv\<close> reads the result. The client object is determined by the stored key
  and timeout; what it answers is the \<open>create\<close> argument of \<open>query\<close>.
\<close>

type_synonym env = "string \<Rightarrow> string option"

record wrapper =
  api_key :: string
  timeout :: int

definition init :: "(env \<Rightarrow> env) \<Rightarrow> env \<Rightarrow> string option \<Rightarrow> int \<Rightarrow> exn + wrapper" where
  "init load_dotenv environ key tmo =
     (let environ' = load_dotenv environ;
          k = (case key of
                 Some s \<Rightarrow> if s \<noteq> [] then Some s else environ' ''OPENAI_API_KEY''
               | None \<Rightarrow> environ' ''OPENAI_API_KEY'')
      in case k of
           None \<Rightarrow> Inl (ValueError ''OPENAI_API_KEY not found.'')
         | Some s \<Rightarrow>
             if s = [] then Inl (ValueError ''OPENAI_API_KEY not found.'')
             else Inr \<lparr>api_key = s, timeout = tmo\<rparr>)"

subsection \<open>The query\<close>

record request =
  req_model :: string
  req_input :: string
  req_tools :: pyval
  req_text :: string
  req_timeout :: int

record QueryResult =
  text_response :: string
  raw_response :: "pyval option"
  cost :: pyfloat

definition fallback :: QueryResult where
  "fallback = \<lparr>text_response = [], raw_response = None, cost = Finite 0\<rparr>"

text \<open>Lines 51 to 56: the assistant text.\<close>

definition is_assistant :: "pyval \<Rightarrow> bool" where
  "is_assistant m = (getattr_default m ''role'' (PStr []) = PStr ''assistant'')"

definition extract_text :: "pyval \<Rightarrow> exn + string" where
  "extract_text r =
     ebind (getattr r ''output'') (\<lambda>out.
     ebind (iter out) (\<lambda>items.
       case find is_assistant items of
         None \<Rightarrow> Inr []
       | Some msg \<Rightarrow>
           if truthy msg
           then ebind (iter (getattr_default msg ''content'' (PList []))) (\<lambda>parts.
                ebind (join_text parts) (\<lambda>t. Inr (strip t)))
           else Inr []))"

text \<open>Lines 59 to 62: \<open>(in_tok, out_tok, reasoning_tok)\<close>.\<close>

definition token_usage :: "pyval \<Rightarrow> pyval \<times> pyval \<times> pyval" where
  "token_usage r =
     (let usage = getattr_default r ''usage'' PNone
      in (py_or (getattr_default usage ''input_tokens'' (PInt 0)) (PInt 0),
          py_or (getattr_default usage ''output_tokens'' (PInt 0)) (PInt 0),
          py_or (getattr_default (getattr_default usage ''output_tokens_details'' PNone)
                   ''reasoning_tokens'' (PInt 0)) (PInt 0)))"

text \<open>Line 63: \<^verbatim>\<open>out_tok + max(0, reasoning_tok - out_tok)\<close>.\<close>

definition billable_out_tok :: "pyval \<Rightarrow> pyval \<Rightarrow> exn + pyval" where
  "billable_out_tok out_tok reasoning_tok =
     ebind (py_sub reasoning_tok out_tok) (\<lambda>d. py_add out_tok (py_max0 d))"

text \<open>Lines 66 and 67: the token cost at the model's rates.\<close>

definition token_cost :: "string \<Rightarrow> pyval \<Rightarrow> pyval \<Rightarrow> exn + pyfloat" where
  "token_cost model in_tok billable =
     (case map_of PRICING model of
        None \<Rightarrow> Inl KeyError
      | Some (rate_in, rate_out) \<Rightarrow>
          ebind (py_float in_tok) (\<lambda>fi.
          ebind (py_fdiv fi lit_1e6) (\<lambda>a.
          ebind (py_float billable) (\<lambda>fb.
          ebind (py_fdiv fb lit_1e6) (\<lambda>b.
            Inr (fadd (fmul a rate_in) (fmul b rate_out)))))))"

text \<open>Lines 70 to 74: the number of web search calls.\<close>

definition is_web_search_call :: "pyval \<Rightarrow> bool" where
  "is_web_search_call item = (getattr_default item ''type'' (PStr []) = PStr ''web_search_call'')"

definition web_calls :: "pyval \<Rightarrow> int" where
  "web_calls r =
     (case attr r ''output'' of
        Some (PList items) \<Rightarrow> int (length (filter is_web_search_call items))
      | _ \<Rightarrow> 0)"

text \<open>Lines 50 to 82: what the method does with the response \<open>r\<close>.\<close>

definition respond :: "string \<Rightarrow> pyval \<Rightarrow> exn + QueryResult" where
  "respond model r =
     ebind (extract_text r) (\<lambda>text.
       case token_usage r of (in_tok, out_tok, reasoning_tok) \<Rightarrow>
     ebind (billable_out_tok out_tok reasoning_tok) (\<lambda>billable.
     ebind (token_cost model in_tok billable) (\<lambda>c.
     ebind (to_float (web_calls r)) (\<lambda>w.
     ebind (py_round6 (fadd c (fmul w WEB_SEARCH_COST_PER_CALL))) (\<lambda>rounded.
       Inr \<lparr>text_response = text, raw_response = Some r, cost = rounded\<rparr>)))))"

definition unsupported :: "string \<Rightarrow> exn" where
  "unsupported model = ValueError (''Unsupported model '' @ [CHR 0x27] @ model @ [CHR 0x27])"

definition mk_request :: "wrapper \<Rightarrow> string \<Rightarrow> string \<Rightarrow> pyval \<Rightarrow> string \<Rightarrow> request" where
  "mk_request self prompt model tools response_format =
     \<lparr>req_model = model, req_input = prompt, req_tools = tools,
      req_text = response_format, req_timeout = timeout self\<rparr>"

text \<open>
  The body of the \<^verbatim>\<open>try\<close> block. \<open>create\<close> is \<^verbatim>\<open>self.client.responses.create\<close>: it answers
  a request with a response object or raises. The second component of the result is
  the list of requests that were dispatched to it.
\<close>

definition query_try ::
  "wrapper \<Rightarrow> (request \<Rightarrow> exn + pyval) \<Rightarrow> string \<Rightarrow> string \<Rightarrow> pyval \<Rightarrow> string
     \<Rightarrow> (exn + QueryResult) \<times> request list" where
  "query_try self create prompt model tools response_format =
     (if map_of PRICING model = None then (Inl (unsupported model), [])
      else let req = mk_request self prompt model tools response_format
           in (ebind (create req) (respond model), [req]))"

text \<open>
  Lines 84 to 87, the handler. It writes two things to \<^verbatim>\<open>sys.stdout\<close>: the line
  \<^verbatim>\<open>[OpenAIWrapper] <class name>: <str(e)>\<close> (\<open>Message e\<close>) and the traceback of \<open>e\<close>
  (\<open>Traceback e\<close>). The stream is a collaborator like the client: \<open>out d\<close> is \<open>None\<close>
  when \<open>d\<close> is written and the exception that the write raises otherwise (a message the
  stream cannot encode, a closed stream). An exception raised by the first write leaves
  the handler before the second; nothing guards either write.
\<close>

datatype diagnostic = Message exn | Traceback exn

type_synonym stdout = "diagnostic \<Rightarrow> exn option"

definition report :: "stdout \<Rightarrow> exn \<Rightarrow> exn option" where
  "report out e = (case out (Message e) of Some e' \<Rightarrow> Some e' | None \<Rightarrow> out (Traceback e))"

text \<open>
  \<^verbatim>\<open>except Exception as e\<close>: an exception outside class \<^verbatim>\<open>Exception\<close> passes through to
  the caller; any other is reported and the fallback dictionary returned, unless the
  report itself raises.
\<close>

definition except_Exception :: "stdout \<Rightarrow> exn \<Rightarrow> exn + QueryResult" where
  "except_Exception out e =
     (if is_Exception e
      then (case report out e of Some e' \<Rightarrow> Inl e' | None \<Rightarrow> Inr fallback)
      else Inl e)"

text \<open>The method: the result or the exception that reaches the caller, and the requests sent.\<close>

definition query ::
  "wrapper \<Rightarrow> (request \<Rightarrow> exn + pyval) \<Rightarrow> stdout \<Rightarrow> string \<Rightarrow> string \<Rightarrow> pyval \<Rightarrow> string
     \<Rightarrow> (exn + QueryResult) \<times> request list" where
  "query self create out prompt model tools response_format =
     (case query_try self create prompt model tools response_format of
        (Inl e, sent) \<Rightarrow> (except_Exception out e, sent)
      | (Inr res, sent) \<Rightarrow> (Inr res, sent))"

section \<open>Vocabulary of the statements\<close>




text \<open>
  The total cost as the specification words it, in exact arithmetic: token cost plus
  tool-call cost, rounded to 6 decimals (ties to even, as \<^verbatim>\<open>round\<close> does; at the input
  below, rounding ties upwards gives the same value).
\<close>

definition spec_total_cost :: "rat \<Rightarrow> rat \<Rightarrow> rat \<Rightarrow> int \<Rightarrow> int \<Rightarrow> int \<Rightarrow> rat" where
  "spec_total_cost input_rate output_rate flat_fee input_tokens billable_output_tokens tool_call_count =
     of_int (round_half_even
       ((of_int input_tokens / 1000000 * input_rate
         + of_int billable_output_tokens / 1000000 * output_rate
         + of_int tool_call_count * flat_fee) * 1000000)) / 1000000"

text \<open>
  The sum that lines 67 and 76 compute before \<^verbatim>\<open>round\<close>, on int counters: every
  conversion, division, product and sum is rounded to binary64, in the order of the
  source.
\<close>

definition float_total :: "pyfloat \<Rightarrow> pyfloat \<Rightarrow> int \<Rightarrow> int \<Rightarrow> int \<Rightarrow> pyfloat" where
  "float_total rate_in rate_out in_tok billable calls =
     fadd (fadd (fmul (fdiv (float_of_int in_tok) lit_1e6) rate_in)
                (fmul (fdiv (float_of_int billable) lit_1e6) rate_out))
          (fmul (float_of_int calls) WEB_SEARCH_COST_PER_CALL)"

text \<open>
  A float that is finite, not negative and at most \<open>2 ^ k\<close>; the bound that keeps the
  cost arithmetic away from the infinities.
\<close>

definition bounded_float :: "int \<Rightarrow> pyfloat \<Rightarrow> bool" where
  "bounded_float k f = (\<exists>v. f = Finite v \<and> 0 \<le> v \<and> v \<le> 2 powi k)"

subsection \<open>Concrete inputs\<close>

text \<open>
  A wrapper, and response objects of the shapes the statements are evaluated on:
  the example of the specification (one million input tokens, half a million output and
  reasoning tokens, two web search calls, an assistant message of two text parts around
  a part without text), responses without an assistant message, without an
  \<^verbatim>\<open>output\<close> attribute or with \<^verbatim>\<open>output = None\<close>, and responses whose usage summary is
  partial, explicit zero or missing; a response of 48734 input and 9712 output tokens,
  whose exact cost at the rates of \<^verbatim>\<open>gpt-5\<close> lies midway between two 6-decimal numbers; and
  two output streams.
\<close>

definition quiet_stdout :: stdout where
  "quiet_stdout d = None"

text \<open>A stream with ASCII encoding: it cannot write a message with a character above 127.\<close>

definition ascii_stdout :: stdout where
  "ascii_stdout d =
     (case d of
        Message (ValueError s) \<Rightarrow>
          if (\<exists>c\<in>set s. 128 \<le> (of_char c :: nat)) then Some UnicodeEncodeError else None
      | _ \<Rightarrow> None)"

definition tie_response :: pyval where
  "tie_response =
     PObj [(''output'', PList []),
           (''usage'', PObj [(''input_tokens'', PInt 48734), (''output_tokens'', PInt 9712)])]"

definition demo_wrapper :: wrapper where
  "demo_wrapper = \<lparr>api_key = ''sk-demo'', timeout = 1000\<rparr>"

definition web_search_item :: pyval where
  "web_search_item = PObj [(''type'', PStr ''web_search_call''), (''status'', PStr ''completed'')]"

definition assistant_item :: pyval where
  "assistant_item =
     PObj [(''type'', PStr ''message''), (''role'', PStr ''assistant''),
           (''content'',
            PList [PObj [(''type'', PStr ''output_text''), (''text'', PStr ''Hello, '')],
                   PObj [(''type'', PStr ''refusal''), (''refusal'', PStr ''no'')],
                   PObj [(''type'', PStr ''output_text''), (''text'', PStr ''world! '')]])]"

definition example_usage :: pyval where
  "example_usage =
     PObj [(''input_tokens'', PInt 1000000), (''output_tokens'', PInt 500000),
           (''output_tokens_details'', PObj [(''reasoning_tokens'', PInt 500000)])]"

definition example_response :: pyval where
  "example_response =
     PObj [(''output'', PList [web_search_item, assistant_item, web_search_item]),
           (''usage'', example_usage)]"


definition no_output_response :: pyval where
  "no_output_response = PObj [(''usage'', PObj [(''input_tokens'', PInt 1000000)])]"

definition none_output_response :: pyval where
  "none_output_response =
     PObj [(''output'', PNone), (''usage'', PObj [(''input_tokens'', PInt 1000000)])]"

definition partial_usage_response :: pyval where
  "partial_usage_response =
     PObj [(''output'', PList [web_search_item]),
           (''usage'', PObj [(''input_tokens'', PNone), (''output_tokens'', PInt 0)])]"

definition zero_usage_response :: pyval where
  "zero_usage_response =
     PObj [(''output'', PList [web_search_item]),
           (''usage'', PObj [(''input_tokens'', PInt 0), (''output_tokens'', PInt 0),
              (''output_tokens_details'', PObj [(''reasoning_tokens'', PInt 0)])])]"

definition no_usage_response :: pyval where
  "no_usage_response = PObj [(''output'', PList [web_search_item])]"

section \<open>Properties of the arithmetic\<close>

subsection \<open>Binades and rounding\<close>

lemma bitlen_powi:
  assumes "0 < p"
  shows "(2::rat) powi (bitlen p - 1) \<le> of_int p" and "(of_int p :: rat) < 2 powi (bitlen p)"
proof -
  have b: "1 \<le> bitlen p" using assms by (simp add: bitlen_alt_def)
  from bitlen_bounds [OF assms]
  have l: "2 ^ nat (bitlen p - 1) \<le> p" and u: "p < 2 ^ nat (bitlen p)" by simp_all
  have "(of_int (2 ^ nat (bitlen p - 1)) :: rat) \<le> of_int p"
    using l by (simp only: of_int_le_iff)
  then show "(2::rat) powi (bitlen p - 1) \<le> of_int p"
    using b by (simp add: power_int_def)
  have "(of_int p :: rat) < of_int (2 ^ nat (bitlen p))"
    using u by (simp only: of_int_less_iff)
  then show "(of_int p :: rat) < 2 powi (bitlen p)"
    using b by (simp add: power_int_def)
qed

lemma binade_bounds:
  assumes "x \<noteq> 0"
  shows "2 powi (binade x) \<le> \<bar>x\<bar>" and "\<bar>x\<bar> < 2 powi (binade x + 1)"
proof -
  obtain p q where pq: "quotient_of \<bar>x\<bar> = (p, q)" by (cases "quotient_of \<bar>x\<bar>")
  have q: "0 < q" using pq by (rule quotient_of_denom_pos)
  have x: "\<bar>x\<bar> = of_int p / of_int q" using pq by (rule quotient_of_div)
  have p: "0 < p"
  proof -
    have "0 < \<bar>x\<bar>" using assms by simp
    then have "0 < (of_int p :: rat) / of_int q" using x by simp
    then show ?thesis using q by (simp add: zero_less_divide_iff)
  qed
  define d where "d = bitlen p - bitlen q"
  have qr: "(0::rat) < of_int q" using q by simp
  have lo: "(2::rat) powi (d - 1) \<le> \<bar>x\<bar>"
  proof -
    have "(2::rat) powi (d - 1) * of_int q \<le> 2 powi (d - 1) * 2 powi (bitlen q)"
      using bitlen_powi(2) [OF q] by (simp add: mult_left_mono)
    also have "\<dots> = 2 powi (bitlen p - 1)"
      by (simp add: d_def flip: power_int_add)
    also have "\<dots> \<le> of_int p" using bitlen_powi(1) [OF p] .
    finally show ?thesis using qr by (simp add: x pos_le_divide_eq)
  qed
  have hi: "\<bar>x\<bar> < (2::rat) powi (d + 1)"
  proof -
    have "(of_int p :: rat) < 2 powi (bitlen p)" using bitlen_powi(2) [OF p] .
    also have "\<dots> = 2 powi (d + 1) * 2 powi (bitlen q - 1)"
      by (simp add: d_def flip: power_int_add)
    also have "\<dots> \<le> 2 powi (d + 1) * of_int q"
      using bitlen_powi(1) [OF q] by (simp add: mult_left_mono)
    finally show ?thesis using qr by (simp add: x pos_divide_less_eq)
  qed
  have bd: "binade x = (if 2 powi d \<le> \<bar>x\<bar> then d else d - 1)"
    by (simp add: binade_def pq d_def Let_def)
  show "2 powi (binade x) \<le> \<bar>x\<bar>" using lo by (simp add: bd)
  show "\<bar>x\<bar> < 2 powi (binade x + 1)" using hi by (simp add: bd not_le)
qed

lemma powi2_less_iff: "(2::rat) powi a < 2 powi b \<longleftrightarrow> a < b"
proof
  assume l: "(2::rat) powi a < 2 powi b"
  show "a < b"
  proof (rule ccontr)
    assume "\<not> a < b"
    then have "b \<le> a" by simp
    then have "(2::rat) powi b \<le> 2 powi a" by (rule power_int_increasing) simp
    with l show False by simp
  qed
next
  assume "a < b"
  then show "(2::rat) powi a < 2 powi b" by (rule power_int_strict_increasing) simp
qed

lemma powi2_le_iff: "(2::rat) powi a \<le> 2 powi b \<longleftrightarrow> a \<le> b"
  using powi2_less_iff [of b a] by (simp add: not_less [symmetric])

lemma binade_unique:
  assumes "2 powi b \<le> \<bar>x\<bar>" and "\<bar>x\<bar> < 2 powi (b + 1)"
  shows "binade x = b"
proof -
  have "(0::rat) < 2 powi b" by simp
  then have "0 < \<bar>x\<bar>" using assms(1) by (rule less_le_trans)
  then have nz: "x \<noteq> 0" by simp
  have "(2::rat) powi b < 2 powi (binade x + 1)"
    using assms(1) binade_bounds(2) [OF nz] by simp
  moreover have "(2::rat) powi (binade x) < 2 powi (b + 1)"
    using assms(2) binade_bounds(1) [OF nz] by simp
  ultimately show ?thesis by (simp add: powi2_less_iff)
qed

lemma rhe_cases:
  "round_half_even y = \<lfloor>y\<rfloor> \<or> round_half_even y = \<lfloor>y\<rfloor> + 1"
  by (simp add: round_half_even_def Let_def)

lemma rhe_of_int: "round_half_even (of_int n) = n"
  by (simp add: round_half_even_def Let_def)

lemma rhe_nonneg: "0 \<le> y \<Longrightarrow> 0 \<le> round_half_even y"
proof -
  assume "0 \<le> y"
  then have "0 \<le> \<lfloor>y\<rfloor>" by simp
  then show ?thesis using rhe_cases [of y] by auto
qed

lemma rhe_le_int:
  assumes "y \<le> of_int N"
  shows "round_half_even y \<le> N"
proof (cases "y = of_int N")
  case True
  then show ?thesis by (simp add: rhe_of_int)
next
  case False
  with assms have "y < of_int N" by simp
  then have "\<lfloor>y\<rfloor> < N" by (simp add: floor_less_iff)
  then show ?thesis using rhe_cases [of y] by auto
qed

lemma rhe_unique:
  assumes "\<bar>y - of_int m\<bar> < 1 / 2"
  shows "round_half_even y = m"
proof (cases "of_int m \<le> y")
  case True
  with assms have "y < of_int m + 1" by simp
  with True have f: "\<lfloor>y\<rfloor> = m" by (simp add: floor_unique)
  show ?thesis using assms True by (simp add: round_half_even_def Let_def f)
next
  case False
  then have lt: "y < of_int m" by simp
  with assms have "of_int (m - 1) \<le> y" by simp
  with lt have f: "\<lfloor>y\<rfloor> = m - 1" by (simp add: floor_unique)
  show ?thesis using assms lt by (simp add: round_half_even_def Let_def f)
qed

lemma rhe_error: "\<bar>of_int (round_half_even y) - y\<bar> \<le> 1 / 2"
proof -
  have "of_int \<lfloor>y\<rfloor> \<le> y" and "y < of_int \<lfloor>y\<rfloor> + 1" by linarith+
  then show ?thesis by (auto simp: round_half_even_def Let_def abs_le_iff)
qed

lemma fl_bounded:
  assumes "0 \<le> x" and "x \<le> 2 powi k" and "- 1074 \<le> k" and "k \<le> 1023"
  shows "\<exists>v. fl x = Finite v \<and> 0 \<le> v \<and> v \<le> 2 powi k"
proof (cases "x = 0")
  case True
  then show ?thesis by (simp add: fl_def)
next
  case False
  define e where "e = max (binade x - 52) (- 1074)"
  define v where "v = (of_int (round_half_even (x / 2 powi e)) :: rat) * 2 powi e"
  have "(2::rat) powi (binade x) \<le> 2 powi k"
    using binade_bounds(1) [OF False] assms(1,2) by simp
  then have "binade x \<le> k" by (simp add: powi2_le_iff)
  then have ek: "e \<le> k" using assms(3) by (simp add: e_def)
  have pe: "(0::rat) < 2 powi e" by simp
  have "x / 2 powi e \<le> 2 powi k / 2 powi e"
    using assms(2) pe by (simp add: divide_right_mono)
  also have "\<dots> = 2 powi (k - e)" by (simp add: power_int_diff)
  also have "\<dots> = of_int (2 ^ nat (k - e))" using ek by (simp add: power_int_def)
  finally have "round_half_even (x / 2 powi e) \<le> 2 ^ nat (k - e)" by (rule rhe_le_int)
  then have "(of_int (round_half_even (x / 2 powi e)) :: rat) \<le> of_int (2 ^ nat (k - e))"
    by (simp only: of_int_le_iff)
  also have "(of_int (2 ^ nat (k - e)) :: rat) = 2 powi (k - e)"
    using ek by (simp add: power_int_def)
  finally have "v \<le> 2 powi (k - e) * 2 powi e"
    unfolding v_def using pe by (simp add: mult_right_mono)
  also have "\<dots> = 2 powi k" by (simp flip: power_int_add)
  finally have vk: "v \<le> 2 powi k" .
  have "0 \<le> x / 2 powi e" using assms(1) by simp
  then have "0 \<le> round_half_even (x / 2 powi e)" by (rule rhe_nonneg)
  then have v0: "0 \<le> v" by (simp add: v_def)
  have "(2::rat) powi k < 2 powi 1024" using assms(4) by (simp only: powi2_less_iff)
  with vk have v1: "v < 2 powi 1024" by simp
  have "fl x = Finite v"
    using False v0 v1 by (simp add: fl_def Let_def e_def [symmetric] v_def [symmetric] not_le)
  then show ?thesis using v0 vk by simp
qed

lemma fl_eval:
  assumes "2 powi b \<le> \<bar>x\<bar>" and "\<bar>x\<bar> < 2 powi (b + 1)"
    and "e = max (b - 52) (- 1074)"
    and "\<bar>x / 2 powi e - of_int m\<bar> < 1 / 2"
    and "\<bar>of_int m * 2 powi e\<bar> < (2::rat) powi 1024"
  shows "fl x = Finite (of_int m * 2 powi e)"
proof -
  have "(0::rat) < 2 powi b" by simp
  then have "0 < \<bar>x\<bar>" using assms(1) by (rule less_le_trans)
  then have nz: "x \<noteq> 0" by simp
  have b: "binade x = b" using assms(1,2) by (rule binade_unique)
  have r: "round_half_even (x / 2 powi e) = m" using assms(4) by (rule rhe_unique)
  show ?thesis
    using nz assms(5) by (simp add: fl_def Let_def b assms(3) [symmetric] r not_le abs_less_iff)
qed

subsection \<open>Values of the rounding at the constants of the examples\<close>

text \<open>
  Each value is obtained from \<open>fl_eval\<close> with the binade and the integer significand
  given explicitly; \<open>1 / 100\<close>, \<open>127 / 100\<close> and the sum \<open>5 / 4 + 2 * 0.01\<close> are not
  binary fractions and are rounded.
\<close>

lemma fl_0: "fl 0 = Finite 0"
  by (simp add: fl_def)

lemma fl_1e6: "fl 1000000 = Finite 1000000"
  using fl_eval [of 19 1000000 "- 33" 8589934592000000] by simp

lemma fl_5e5: "fl 500000 = Finite 500000"
  using fl_eval [of 18 500000 "- 34" 8589934592000000] by simp

lemma fl_1: "fl 1 = Finite 1"
  using fl_eval [of 0 1 "- 52" 4503599627370496] by simp

lemma fl_2: "fl 2 = Finite 2"
  using fl_eval [of 1 2 "- 51" 4503599627370496] by simp

lemma fl_quarter: "fl (1 / 4) = Finite (1 / 4)"
  using fl_eval [of "- 2" "1 / 4" "- 54" 4503599627370496] by simp

lemma fl_half: "fl (1 / 2) = Finite (1 / 2)"
  using fl_eval [of "- 1" "1 / 2" "- 53" 4503599627370496] by simp

lemma fl_5_4: "fl (5 / 4) = Finite (5 / 4)"
  using fl_eval [of 0 "5 / 4" "- 52" 5629499534213120] by simp

lemma fl_cent: "fl (1 / 100) = Finite (5764607523034235 / 576460752303423488)"
  using fl_eval [of "- 7" "1 / 100" "- 59" 5764607523034235] by simp

lemma fl_cent_exact:
  "fl (5764607523034235 / 576460752303423488) = Finite (5764607523034235 / 576460752303423488)"
  using fl_eval [of "- 7" "5764607523034235 / 576460752303423488" "- 59" 5764607523034235] by simp

lemma fl_two_cents:
  "fl (5764607523034235 / 288230376151711744) = Finite (5764607523034235 / 288230376151711744)"
  using fl_eval [of "- 6" "5764607523034235 / 288230376151711744" "- 58" 5764607523034235] by simp

lemma fl_sum_example:
  "fl (366052577712673915 / 288230376151711744) = Finite (2859785763380265 / 2251799813685248)"
  using fl_eval [of 0 "366052577712673915 / 288230376151711744" "- 52" 5719571526760530] by simp

lemma fl_127: "fl (127 / 100) = Finite (2859785763380265 / 2251799813685248)"
  using fl_eval [of 0 "127 / 100" "- 52" 5719571526760530] by simp

lemma round6_example:
  "round6 (Finite (2859785763380265 / 2251799813685248)) = Finite (2859785763380265 / 2251799813685248)"
  using rhe_unique [of "2859785763380265 / 2251799813685248 * 1000000" 1270000]
  by (simp add: fl_127)

lemma round6_cent:
  "round6 (Finite (5764607523034235 / 576460752303423488)) = Finite (5764607523034235 / 576460752303423488)"
  using rhe_unique [of "5764607523034235 / 576460752303423488 * 1000000" 10000]
  by (simp add: fl_cent)

lemma fl_tie_in: "fl 48734 = Finite 48734"
  using fl_eval [of 15 48734 "- 37" 6697949958504448] by simp

lemma fl_tie_in_millions: "fl (24367 / 500000) = Finite (877913696961095 / 18014398509481984)"
  using fl_eval [of "- 5" "24367 / 500000" "- 57" 7023309575688760] by simp

lemma fl_tie_in_cost: "fl (4389568484805475 / 72057594037927936) = Finite (4389568484805475 / 72057594037927936)"
  using fl_eval [of "- 5" "4389568484805475 / 72057594037927936" "- 57" 8779136969610950] by simp

lemma fl_tie_out: "fl 9712 = Finite 9712"
  using fl_eval [of 13 9712 "- 39" 5339228464480256] by simp

lemma fl_tie_out_millions: "fl (607 / 62500) = Finite (5598586826370849 / 576460752303423488)"
  using fl_eval [of "- 7" "607 / 62500" "- 59" 5598586826370849] by simp

lemma fl_tie_out_cost: "fl (27992934131854245 / 288230376151711744) = Finite (6998233532963561 / 72057594037927936)"
  using fl_eval [of "- 4" "27992934131854245 / 288230376151711744" "- 56" 6998233532963561] by simp

lemma fl_tie_sum: "fl (2846950504442259 / 18014398509481984) = Finite (2846950504442259 / 18014398509481984)"
  using fl_eval [of "- 3" "2846950504442259 / 18014398509481984" "- 55" 5693901008884518] by simp

lemma fl_10: "fl 10 = Finite 10"
  using fl_eval [of 3 10 "- 49" 5629499534213120] by simp

lemma fl_158037: "fl (158037 / 1000000) = Finite (5693882994486009 / 36028797018963968)"
  using fl_eval [of "- 3" "158037 / 1000000" "- 55" 5693882994486009] by simp

lemma fl_158038: "fl (79019 / 500000) = Finite (1423479755820757 / 9007199254740992)"
  using fl_eval [of "- 3" "79019 / 500000" "- 55" 5693919023283028] by simp

lemma round6_tie:
  "round6 (Finite (2846950504442259 / 18014398509481984)) = Finite (5693882994486009 / 36028797018963968)"
  using rhe_unique [of "2846950504442259 / 18014398509481984 * 1000000" 158037]
  by (simp add: fl_158037)

lemmas fl_values = fl_0 fl_1e6 fl_5e5 fl_1 fl_2 fl_quarter fl_half fl_5_4 fl_cent fl_cent_exact
  fl_two_cents fl_sum_example fl_127

lemmas fl_tie_values = fl_0 fl_1e6 fl_5_4 fl_10 fl_tie_in fl_tie_in_millions fl_tie_in_cost
  fl_tie_out fl_tie_out_millions fl_tie_out_cost fl_tie_sum fl_158037 fl_158038

subsection \<open>Bounds that exclude overflow\<close>

lemma bounded_fl:
  "0 \<le> x \<Longrightarrow> x \<le> 2 powi k \<Longrightarrow> - 1074 \<le> k \<Longrightarrow> k \<le> 1023 \<Longrightarrow> bounded_float k (fl x)"
  unfolding bounded_float_def by (rule fl_bounded)

lemma bounded_mono:
  assumes "bounded_float j f" and "j \<le> k"
  shows "bounded_float k f"
proof -
  from assms(1) obtain v where v: "f = Finite v" "0 \<le> v" "v \<le> 2 powi j"
    by (auto simp: bounded_float_def)
  have "(2::rat) powi j \<le> 2 powi k" using assms(2) by (simp add: powi2_le_iff)
  with v show ?thesis by (auto simp: bounded_float_def)
qed

lemma bounded_fmul:
  assumes "bounded_float i a" and "bounded_float j b" and "- 1074 \<le> i + j" and "i + j \<le> 1023"
  shows "bounded_float (i + j) (fmul a b)"
proof -
  from assms(1) obtain x where x: "a = Finite x" "0 \<le> x" "x \<le> 2 powi i"
    by (auto simp: bounded_float_def)
  from assms(2) obtain y where y: "b = Finite y" "0 \<le> y" "y \<le> 2 powi j"
    by (auto simp: bounded_float_def)
  have "x * y \<le> 2 powi i * 2 powi j"
    using x(2,3) y(2,3) by (intro mult_mono) simp_all
  also have "\<dots> = 2 powi (i + j)" by (simp add: power_int_add)
  finally have "x * y \<le> 2 powi (i + j)" .
  moreover have "0 \<le> x * y" using x(2) y(2) by simp
  ultimately have "bounded_float (i + j) (fl (x * y))"
    using assms(3,4) by (intro bounded_fl)
  then show ?thesis by (simp add: x(1) y(1))
qed

lemma bounded_fadd:
  assumes "bounded_float k a" and "bounded_float k b" and "- 1075 \<le> k" and "k \<le> 1022"
  shows "bounded_float (k + 1) (fadd a b)"
proof -
  from assms(1) obtain x where x: "a = Finite x" "0 \<le> x" "x \<le> 2 powi k"
    by (auto simp: bounded_float_def)
  from assms(2) obtain y where y: "b = Finite y" "0 \<le> y" "y \<le> 2 powi k"
    by (auto simp: bounded_float_def)
  have "x + y \<le> 2 powi k + 2 powi k" using x(3) y(3) by simp
  also have "\<dots> = 2 powi (k + 1)" by (simp add: power_int_add)
  finally have "x + y \<le> 2 powi (k + 1)" .
  moreover have "0 \<le> x + y" using x(2) y(2) by simp
  ultimately have "bounded_float (k + 1) (fl (x + y))"
    using assms(3,4) by (intro bounded_fl) simp_all
  then show ?thesis by (simp add: x(1) y(1))
qed

lemma lit_1e6_value: "lit_1e6 = Finite 1000000"
  by (simp add: lit_1e6_def fl_1e6)

lemma py_fdiv_1e6: "py_fdiv f lit_1e6 = Inr (fdiv f lit_1e6)"
  by (simp add: py_fdiv_def lit_1e6_value)

lemma bounded_fdiv_1e6:
  assumes "bounded_float k a" and "- 1055 \<le> k" and "k \<le> 1024"
  shows "py_fdiv a lit_1e6 = Inr (fdiv a lit_1e6)" and "bounded_float (k - 19) (fdiv a lit_1e6)"
proof -
  from assms(1) obtain x where x: "a = Finite x" "0 \<le> x" "x \<le> 2 powi k"
    by (auto simp: bounded_float_def)
  show "py_fdiv a lit_1e6 = Inr (fdiv a lit_1e6)"
    by (simp add: py_fdiv_def lit_1e6_def fl_1e6)
  have "x / 1000000 \<le> 2 powi k / 1000000" using x(3) by (simp add: divide_right_mono)
  also have "\<dots> \<le> 2 powi k / 2 powi 19" by (intro divide_left_mono) simp_all
  also have "\<dots> = 2 powi (k - 19)" by (simp add: power_int_diff)
  finally have "x / 1000000 \<le> 2 powi (k - 19)" .
  moreover have "0 \<le> x / 1000000" using x(2) by simp
  ultimately have "bounded_float (k - 19) (fl (x / 1000000))"
    using assms(2,3) by (intro bounded_fl) simp_all
  then show "bounded_float (k - 19) (fdiv a lit_1e6)"
    by (simp add: x(1) lit_1e6_def fl_1e6)
qed

lemma fl_Finite_nonneg:
  assumes "0 \<le> x" and "fl x = Finite v"
  shows "0 \<le> v" and "v < 2 powi 1024"
proof -
  have r: "0 \<le> round_half_even (x / 2 powi e)" for e
    using assms(1) by (intro rhe_nonneg) simp
  show "0 \<le> v" using assms(2) r
    by (auto simp: fl_def Let_def split: if_splits)
  show "v < 2 powi 1024" using assms(2)
    by (auto simp: fl_def Let_def not_le split: if_splits)
qed

lemma bounded_to_float:
  assumes "0 \<le> n" and "to_float n = Inr f"
  shows "bounded_float 1024 f" and "f = float_of_int n"
proof -
  from assms(2) have f: "f = float_of_int n" and fin: "is_finite (float_of_int n)"
    by (auto simp: to_float_def split: if_splits)
  then obtain v where v: "fl (of_int n) = Finite v"
    by (cases "fl (of_int n)") (simp_all add: float_of_int_def)
  have "(0::rat) \<le> of_int n" using assms(1) by simp
  from fl_Finite_nonneg [OF this v] have "0 \<le> v" "v \<le> 2 powi 1024" by simp_all
  then show "bounded_float 1024 f" using f v by (simp add: bounded_float_def float_of_int_def)
  show "f = float_of_int n" by (rule f)
qed

lemma round6_bounded:
  assumes "bounded_float k f" and "0 \<le> k" and "k \<le> 1023"
  shows "\<exists>c n. round6 f = Finite c \<and> 0 \<le> c \<and> 0 \<le> n \<and> round6 f = fl (of_int n / 1000000)"
proof -
  from assms(1) obtain x where x: "f = Finite x" "0 \<le> x" "x \<le> 2 powi k"
    by (auto simp: bounded_float_def)
  define n where "n = round_half_even (x * 1000000)"
  have n0: "0 \<le> n" unfolding n_def using x(2) by (intro rhe_nonneg) simp
  have "x * 1000000 \<le> 2 powi k * 1000000" using x(3) by simp
  also have "\<dots> = of_int (2 ^ nat k * 1000000)" using assms(2) by (simp add: power_int_def)
  finally have "n \<le> 2 ^ nat k * 1000000" unfolding n_def by (rule rhe_le_int)
  then have "(of_int n :: rat) \<le> of_int (2 ^ nat k * 1000000)" by (simp only: of_int_le_iff)
  also have "\<dots> = 2 powi k * 1000000" using assms(2) by (simp add: power_int_def)
  finally have "(of_int n :: rat) / 1000000 \<le> 2 powi k" by simp
  moreover have "(0::rat) \<le> of_int n / 1000000" using n0 by simp
  ultimately have "bounded_float k (fl (of_int n / 1000000))"
    using assms(2,3) by (intro bounded_fl) simp_all
  then obtain c where "fl (of_int n / 1000000) = Finite c" "0 \<le> c"
    by (auto simp: bounded_float_def)
  then show ?thesis using n0 by (auto simp: x(1) n_def)
qed

lemma pricing_bounded:
  assumes "map_of PRICING model = Some (rate_in, rate_out)"
  shows "bounded_float 4 rate_in" and "bounded_float 4 rate_out"
proof -
  have b: "bounded_float 4 (fl x)" if "0 \<le> x" "x \<le> 16" for x
    using that by (intro bounded_fl) simp_all
  have "bounded_float 4 rate_in \<and> bounded_float 4 rate_out"
    using assms by (auto simp: PRICING_def b split: if_splits)
  then show "bounded_float 4 rate_in" and "bounded_float 4 rate_out" by simp_all
qed

lemma fee_bounded: "bounded_float (- 6) WEB_SEARCH_COST_PER_CALL"
  unfolding WEB_SEARCH_COST_PER_CALL_def by (intro bounded_fl) simp_all

lemma web_calls_nonneg: "0 \<le> web_calls r"
  by (simp add: web_calls_def split: option.splits pyval.splits)

lemma to_float_Inr: "to_float n = Inr f \<Longrightarrow> f = float_of_int n"
  by (auto simp: to_float_def split: if_splits)

lemma py_round6_Inr: "py_round6 f = Inr g \<Longrightarrow> g = round6 f"
  by (auto simp: py_round6_def split: if_splits)

section \<open>Properties of the steps of the query\<close>

subsection \<open>Exceptions as values\<close>

lemma ebind_Inl [simp]: "ebind (Inl e) f = Inl e"
  by (simp add: ebind_def)

lemma ebind_Inr [simp]: "ebind (Inr x) f = f x"
  by (simp add: ebind_def)

lemma ebind_eq_Inr: "ebind m f = Inr y \<longleftrightarrow> (\<exists>x. m = Inr x \<and> f x = Inr y)"
  by (cases m) simp_all

lemma ebind_eq_Inl: "ebind m f = Inl e \<longleftrightarrow> m = Inl e \<or> (\<exists>x. m = Inr x \<and> f x = Inl e)"
  by (cases m) simp_all

lemma except_quiet:
  "\<forall>d. out d = None \<Longrightarrow> is_Exception e \<Longrightarrow> except_Exception out e = Inr fallback"
  by (simp add: except_Exception_def report_def)

lemma except_Inr: "except_Exception out e = Inr res \<Longrightarrow> res = fallback"
  by (auto simp: except_Exception_def split: if_splits option.splits)

lemma except_quiet_Inl:
  "\<forall>d. out d = None \<Longrightarrow> except_Exception out e = Inl e' \<longleftrightarrow> \<not> is_Exception e \<and> e' = e"
  by (auto simp: except_Exception_def report_def)

lemma unsupported_is_Exception: "is_Exception (unsupported model)"
  by (simp add: unsupported_def)

lemma query_unfold:
  "query self create out prompt model tools fmt =
     (if map_of PRICING model = None then (except_Exception out (unsupported model), [])
      else (case create (mk_request self prompt model tools fmt) of
              Inl e \<Rightarrow> except_Exception out e
            | Inr r \<Rightarrow> (case respond model r of
                         Inl e \<Rightarrow> except_Exception out e
                       | Inr res \<Rightarrow> Inr res),
            [mk_request self prompt model tools fmt]))"
  by (simp add: query_def query_try_def Let_def ebind_def split: sum.splits)

lemma query_Inr:
  assumes "fst (query self create out prompt model tools fmt) = Inr res"
  shows "res = fallback
     \<or> (map_of PRICING model \<noteq> None
        \<and> (\<exists>r. create (mk_request self prompt model tools fmt) = Inr r \<and> respond model r = Inr res))"
  using assms by (auto simp: query_unfold split: if_splits sum.splits dest: except_Inr)

lemma query_no_dispatch:
  "map_of PRICING model = None \<Longrightarrow> snd (query self create out prompt model tools fmt) = []"
  by (simp add: query_unfold)

lemma query_of_raise:
  assumes "\<forall>d. out d = None"
    and "fst (query_try self create prompt model tools fmt) = Inl e" and "is_Exception e"
  shows "fst (query self create out prompt model tools fmt) = Inr fallback"
  using assms(2) except_quiet [OF assms(1,3)]
  by (cases "query_try self create prompt model tools fmt") (simp add: query_def)

subsection \<open>Text extraction\<close>




lemma find_none: "\<forall>m\<in>set items. \<not> P m \<Longrightarrow> find P items = None"
  by (simp add: find_None_iff)


lemma strip_decomp:
  "\<exists>a b. s = a @ strip s @ b \<and> (\<forall>c\<in>set a. isspace c) \<and> (\<forall>c\<in>set b. isspace c)"
proof -
  define t where "t = dropWhile isspace s"
  define a where "a = takeWhile isspace s"
  define b where "b = rev (takeWhile isspace (rev t))"
  have "rev (takeWhile isspace (rev t) @ dropWhile isspace (rev t)) = t"
    by (simp only: takeWhile_dropWhile_id rev_rev_ident)
  then have "rev (dropWhile isspace (rev t)) @ rev (takeWhile isspace (rev t)) = t"
    by (simp only: rev_append)
  then have t: "t = strip s @ b" by (simp only: strip_def b_def t_def)
  have "s = a @ t" by (simp add: a_def t_def)
  with t have "s = a @ strip s @ b" by simp
  moreover have "\<forall>c\<in>set a. isspace c" by (auto simp: a_def dest: set_takeWhileD)
  moreover have "\<forall>c\<in>set b. isspace c" by (auto simp: b_def dest: set_takeWhileD)
  ultimately show ?thesis by blast
qed

lemma last_dropWhile_nonempty: "dropWhile P xs \<noteq> [] \<Longrightarrow> last (dropWhile P xs) = last xs"
  by (induction xs) (auto split: if_splits)

lemma strip_ends:
  assumes "strip s \<noteq> []"
  shows "\<not> isspace (hd (strip s))" and "\<not> isspace (last (strip s))"
proof -
  define t where "t = dropWhile isspace s"
  define u where "u = dropWhile isspace (rev t)"
  have s: "strip s = rev u" by (simp add: strip_def u_def t_def)
  with assms have u: "u \<noteq> []" by simp
  then have t: "t \<noteq> []" by (auto simp: u_def)
  have "last (strip s) = hd u" using u by (simp add: s last_rev)
  moreover have "\<not> isspace (hd u)" using u unfolding u_def by (rule hd_dropWhile)
  ultimately show "\<not> isspace (last (strip s))" by simp
  have "hd (strip s) = last u" using u by (simp add: s hd_rev)
  also have "\<dots> = last (rev t)" using u unfolding u_def by (rule last_dropWhile_nonempty)
  also have "\<dots> = hd t" using t by (simp add: last_rev)
  finally have "hd (strip s) = hd t" .
  moreover have "\<not> isspace (hd t)" using t unfolding t_def by (rule hd_dropWhile)
  ultimately show "\<not> isspace (hd (strip s))" by simp
qed


lemma respond_raw: "respond model r = Inr res \<Longrightarrow> raw_response res = Some r"
  by (cases "token_usage r") (auto simp: respond_def ebind_eq_Inr)

subsection \<open>The steps raise exceptions of class Exception only\<close>

lemma to_float_Inl: "to_float n = Inl e \<Longrightarrow> is_Exception e"
  by (auto simp: to_float_def split: if_splits)

lemma py_float_Inl: "py_float v = Inl e \<Longrightarrow> is_Exception e"
  by (cases v) (auto dest: to_float_Inl)

lemma py_sub_Inl: "py_sub a b = Inl e \<Longrightarrow> is_Exception e"
  by (auto simp: py_sub_def ebind_eq_Inl split: option.splits dest: py_float_Inl)

lemma py_add_Inl: "py_add a b = Inl e \<Longrightarrow> is_Exception e"
  by (auto simp: py_add_def ebind_eq_Inl split: option.splits dest: py_float_Inl)

lemma billable_Inl: "billable_out_tok a b = Inl e \<Longrightarrow> is_Exception e"
  by (auto simp: billable_out_tok_def ebind_eq_Inl dest: py_sub_Inl py_add_Inl)

lemma py_fdiv_Inl: "py_fdiv f g = Inl e \<Longrightarrow> is_Exception e"
  by (auto simp: py_fdiv_def split: if_splits)

lemma token_cost_Inl: "token_cost model a b = Inl e \<Longrightarrow> is_Exception e"
  by (auto simp: token_cost_def ebind_eq_Inl split: option.splits dest: py_float_Inl py_fdiv_Inl)

lemma py_round6_Inl: "py_round6 f = Inl e \<Longrightarrow> is_Exception e"
  by (auto simp: py_round6_def split: if_splits)

lemma getattr_Inl: "getattr v n = Inl e \<Longrightarrow> is_Exception e"
  by (auto simp: getattr_def split: option.splits)

lemma iter_Inl: "iter v = Inl e \<Longrightarrow> is_Exception e"
  by (cases v) auto

lemma join_text_Inl: "join_text ps = Inl e \<Longrightarrow> is_Exception e"
  by (induction ps) (auto simp: ebind_eq_Inl split: option.splits pyval.splits)

lemma extract_text_Inl: "extract_text r = Inl e \<Longrightarrow> is_Exception e"
  by (auto simp: extract_text_def ebind_eq_Inl split: option.splits if_splits
      dest: getattr_Inl iter_Inl join_text_Inl)

lemma respond_Inl: "respond model r = Inl e \<Longrightarrow> is_Exception e"
  by (cases "token_usage r")
    (auto simp: respond_def ebind_eq_Inl
      dest: extract_text_Inl billable_Inl token_cost_Inl to_float_Inl py_round6_Inl)

lemma query_raises_iff:
  assumes "\<forall>d. out d = None"
  shows "fst (query self create out prompt model tools fmt) = Inl e \<longleftrightarrow>
     map_of PRICING model \<noteq> None \<and> create (mk_request self prompt model tools fmt) = Inl e
     \<and> \<not> is_Exception e"
proof (cases "map_of PRICING model = None")
  case True
  then show ?thesis
    by (simp add: query_unfold except_quiet [OF assms unsupported_is_Exception])
next
  case False
  show ?thesis
  proof (cases "create (mk_request self prompt model tools fmt)")
    case (Inl e')
    with False show ?thesis
      by (auto simp: query_unfold except_quiet_Inl [OF assms])
  next
    case (Inr r)
    show ?thesis
    proof (cases "respond model r")
      case (Inl e')
      from respond_Inl [OF this] have "except_Exception out e' = Inr fallback"
        by (rule except_quiet [OF assms])
      with False Inr Inl show ?thesis by (auto simp: query_unfold)
    next
      case (Inr res)
      with False \<open>create (mk_request self prompt model tools fmt) = Inr r\<close> show ?thesis
        by (auto simp: query_unfold)
    qed
  qed
qed

lemma query_quiet_returns:
  assumes "\<forall>d. out d = None"
    and "\<forall>e. create (mk_request self prompt model tools fmt) = Inl e \<longrightarrow> is_Exception e"
  shows "\<exists>res. fst (query self create out prompt model tools fmt) = Inr res"
proof (cases "fst (query self create out prompt model tools fmt)")
  case (Inl e)
  with query_raises_iff [OF assms(1)] assms(2) show ?thesis by blast
next
  case (Inr res)
  then show ?thesis by blast
qed

subsection \<open>Usage counters and cost\<close>

lemma token_usage_cases:
  "token_usage r =
     (let u = getattr_default r ''usage'' PNone;
          d = getattr_default u ''output_tokens_details'' PNone
      in ((case attr u ''input_tokens'' of None \<Rightarrow> PInt 0 | Some v \<Rightarrow> if truthy v then v else PInt 0),
          (case attr u ''output_tokens'' of None \<Rightarrow> PInt 0 | Some v \<Rightarrow> if truthy v then v else PInt 0),
          (case attr d ''reasoning_tokens'' of None \<Rightarrow> PInt 0 | Some v \<Rightarrow> if truthy v then v else PInt 0)))"
  by (simp add: token_usage_def Let_def getattr_default_def py_or_def split: option.splits)

lemma usage_field:
  "getattr_default r ''usage'' PNone = u \<Longrightarrow>
   fst (token_usage r) = (case attr u ''input_tokens'' of None \<Rightarrow> PInt 0 | Some v \<Rightarrow> if truthy v then v else PInt 0)
   \<and> fst (snd (token_usage r)) = (case attr u ''output_tokens'' of None \<Rightarrow> PInt 0 | Some v \<Rightarrow> if truthy v then v else PInt 0)
   \<and> snd (snd (token_usage r)) =
       (case attr (getattr_default u ''output_tokens_details'' PNone) ''reasoning_tokens'' of
          None \<Rightarrow> PInt 0 | Some v \<Rightarrow> if truthy v then v else PInt 0)"
  by (simp add: token_usage_cases Let_def)

lemma extract_text_cong: "attr r' ''output'' = attr r ''output'' \<Longrightarrow> extract_text r' = extract_text r"
  by (simp add: extract_text_def getattr_def)

lemma web_calls_cong: "attr r' ''output'' = attr r ''output'' \<Longrightarrow> web_calls r' = web_calls r"
  by (simp add: web_calls_def)

lemma respond_cong:
  assumes "attr r' ''output'' = attr r ''output''" and "token_usage r' = token_usage r"
  shows "map_sum id cost (respond model r') = map_sum id cost (respond model r)"
    and "map_sum id text_response (respond model r') = map_sum id text_response (respond model r)"
  unfolding respond_def extract_text_cong [OF assms(1)] web_calls_cong [OF assms(1)] assms(2)
  by (auto simp: ebind_def split: sum.splits prod.splits)

lemma billable_int:
  "billable_out_tok (PInt out) (PInt reasoning) = Inr (PInt (out + max 0 (reasoning - out)))"
  by (simp add: billable_out_tok_def py_sub_def py_add_def py_max0_def)

lemma token_cost_int:
  assumes "token_cost model (PInt i) (PInt b) = Inr c"
  shows "\<exists>rate_in rate_out fi fb.
           map_of PRICING model = Some (rate_in, rate_out)
           \<and> to_float i = Inr fi \<and> to_float b = Inr fb
           \<and> c = fadd (fmul (fdiv fi lit_1e6) rate_in) (fmul (fdiv fb lit_1e6) rate_out)"
proof (cases "map_of PRICING model")
  case None
  with assms show ?thesis by (simp add: token_cost_def)
next
  case (Some rates)
  obtain rate_in rate_out where r: "rates = (rate_in, rate_out)" by (cases rates)
  from assms obtain fi where fi: "to_float i = Inr fi"
    by (cases "to_float i") (simp_all add: token_cost_def Some r)
  from assms obtain fb where fb: "to_float b = Inr fb"
    by (cases "to_float b") (simp_all add: token_cost_def Some r fi py_fdiv_1e6)
  from assms have "c = fadd (fmul (fdiv fi lit_1e6) rate_in) (fmul (fdiv fb lit_1e6) rate_out)"
    by (simp add: token_cost_def Some r fi fb py_fdiv_1e6)
  with Some r fi fb show ?thesis by simp
qed

lemma respond_int:
  assumes "respond model r = Inr res" and "token_usage r = (PInt i, PInt out, PInt rs)"
  shows "\<exists>tx c w.
           extract_text r = Inr tx
           \<and> token_cost model (PInt i) (PInt (out + max 0 (rs - out))) = Inr c
           \<and> to_float (web_calls r) = Inr w
           \<and> py_round6 (fadd c (fmul w WEB_SEARCH_COST_PER_CALL)) = Inr (cost res)
           \<and> res = \<lparr>text_response = tx, raw_response = Some r, cost = cost res\<rparr>"
proof -
  from assms(1) obtain tx where t: "extract_text r = Inr tx"
    by (cases "extract_text r") (simp_all add: respond_def)
  let ?b = "PInt (out + max 0 (rs - out))"
  from assms(1) obtain c where c: "token_cost model (PInt i) ?b = Inr c"
    by (cases "token_cost model (PInt i) ?b") (simp_all add: respond_def t assms(2) billable_int)
  from assms(1) obtain w where w: "to_float (web_calls r) = Inr w"
    by (cases "to_float (web_calls r)") (simp_all add: respond_def t assms(2) billable_int c)
  let ?total = "fadd c (fmul w WEB_SEARCH_COST_PER_CALL)"
  from assms(1) obtain g where g: "py_round6 ?total = Inr g"
    by (cases "py_round6 ?total") (simp_all add: respond_def t assms(2) billable_int c w)
  from assms(1) have "res = \<lparr>text_response = tx, raw_response = Some r, cost = g\<rparr>"
    by (simp add: respond_def t assms(2) billable_int c w g)
  with t c w g show ?thesis by simp
qed

lemma query_success:
  assumes "fst (query self create out prompt model tools fmt) = Inr res"
    and "raw_response res = Some r"
  shows "create (mk_request self prompt model tools fmt) = Inr r" and "respond model r = Inr res"
proof -
  have nf: "res \<noteq> fallback" using assms(2) by (auto simp: fallback_def)
  with query_Inr [OF assms(1)] obtain r' where
    r': "create (mk_request self prompt model tools fmt) = Inr r'" and res: "respond model r' = Inr res"
    by blast
  from respond_raw [OF res] assms(2) have "r' = r" by simp
  with r' res show "create (mk_request self prompt model tools fmt) = Inr r"
    and "respond model r = Inr res" by simp_all
qed

lemma respond_cost_formula:
  assumes "respond model r = Inr res"
    and "token_usage r = (PInt i, PInt out, PInt rs)"
    and "map_of PRICING model = Some (rate_in, rate_out)"
  shows "cost res =
      round6 (fadd (fadd (fmul (fdiv (float_of_int i) lit_1e6) rate_in)
                         (fmul (fdiv (float_of_int (out + max 0 (rs - out))) lit_1e6) rate_out))
                   (fmul (float_of_int (web_calls r)) WEB_SEARCH_COST_PER_CALL))"
proof -
  from respond_int [OF assms(1,2)] obtain c w where
    c: "token_cost model (PInt i) (PInt (out + max 0 (rs - out))) = Inr c"
    and w: "to_float (web_calls r) = Inr w"
    and g: "py_round6 (fadd c (fmul w WEB_SEARCH_COST_PER_CALL)) = Inr (cost res)"
    by blast
  from token_cost_int [OF c] assms(3) obtain fi fb where
    fi: "to_float i = Inr fi" and fb: "to_float (out + max 0 (rs - out)) = Inr fb"
    and cv: "c = fadd (fmul (fdiv fi lit_1e6) rate_in) (fmul (fdiv fb lit_1e6) rate_out)"
    by auto
  show ?thesis
    using py_round6_Inr [OF g]
    by (simp only: cv to_float_Inr [OF fi] to_float_Inr [OF fb] to_float_Inr [OF w])
qed

lemma respond_cost_total:
  assumes "respond model r = Inr res"
    and "token_usage r = (PInt i, PInt out, PInt rs)"
    and "map_of PRICING model = Some (rate_in, rate_out)"
  shows "cost res = round6 (float_total rate_in rate_out i (out + max 0 (rs - out)) (web_calls r))"
  using respond_cost_formula [OF assms] by (simp only: float_total_def)

lemma respond_total_bounded:
  assumes "respond model r = Inr res"
    and "token_usage r = (PInt i, PInt out, PInt rs)"
    and "0 \<le> i" and "0 \<le> out" and "0 \<le> rs"
    and "map_of PRICING model = Some (rate_in, rate_out)"
  shows "bounded_float 1019 (float_total rate_in rate_out i (out + max 0 (rs - out)) (web_calls r))"
proof -
  from respond_int [OF assms(1,2)] obtain c w where
    c: "token_cost model (PInt i) (PInt (out + max 0 (rs - out))) = Inr c"
    and w: "to_float (web_calls r) = Inr w"
    by blast
  from token_cost_int [OF c] assms(6) obtain fi fb where
    fi: "to_float i = Inr fi" and fb: "to_float (out + max 0 (rs - out)) = Inr fb"
    by auto
  note p = assms(6)
  let ?fi = "float_of_int i" and ?fb = "float_of_int (out + max 0 (rs - out))"
  let ?w = "float_of_int (web_calls r)"
  have b0: "0 \<le> out + max 0 (rs - out)" using assms(4) by simp
  have "bounded_float 1024 fi" using assms(3) fi by (rule bounded_to_float(1))
  then have "bounded_float 1024 ?fi" by (simp only: to_float_Inr [OF fi])
  then have "bounded_float (1024 - 19) (fdiv ?fi lit_1e6)" by (rule bounded_fdiv_1e6(2)) simp_all
  then have "bounded_float (1005 + 4) (fmul (fdiv ?fi lit_1e6) rate_in)"
    using pricing_bounded(1) [OF p] by (intro bounded_fmul) simp_all
  then have t1: "bounded_float 1009 (fmul (fdiv ?fi lit_1e6) rate_in)" by simp
  have "bounded_float 1024 fb" using b0 fb by (rule bounded_to_float(1))
  then have "bounded_float 1024 ?fb" by (simp only: to_float_Inr [OF fb])
  then have "bounded_float (1024 - 19) (fdiv ?fb lit_1e6)" by (rule bounded_fdiv_1e6(2)) simp_all
  then have "bounded_float (1005 + 4) (fmul (fdiv ?fb lit_1e6) rate_out)"
    using pricing_bounded(2) [OF p] by (intro bounded_fmul) simp_all
  then have t2: "bounded_float 1009 (fmul (fdiv ?fb lit_1e6) rate_out)" by simp
  have "bounded_float (1009 + 1)
      (fadd (fmul (fdiv ?fi lit_1e6) rate_in) (fmul (fdiv ?fb lit_1e6) rate_out))"
    using t1 t2 by (rule bounded_fadd) simp_all
  then have cb: "bounded_float 1018
      (fadd (fmul (fdiv ?fi lit_1e6) rate_in) (fmul (fdiv ?fb lit_1e6) rate_out))"
    by (rule bounded_mono) simp
  have "bounded_float 1024 w" using web_calls_nonneg w by (rule bounded_to_float(1))
  then have "bounded_float 1024 ?w" by (simp only: to_float_Inr [OF w])
  then have "bounded_float (1024 + - 6) (fmul ?w WEB_SEARCH_COST_PER_CALL)"
    using fee_bounded by (rule bounded_fmul) simp_all
  then have wb: "bounded_float 1018 (fmul ?w WEB_SEARCH_COST_PER_CALL)" by simp
  have "bounded_float (1018 + 1)
      (fadd (fadd (fmul (fdiv ?fi lit_1e6) rate_in) (fmul (fdiv ?fb lit_1e6) rate_out))
            (fmul ?w WEB_SEARCH_COST_PER_CALL))"
    using cb wb by (rule bounded_fadd) simp_all
  then show ?thesis by (simp add: float_total_def)
qed

lemma respond_pricing:
  assumes "respond model r = Inr res" and "token_usage r = (PInt i, PInt out, PInt rs)"
  shows "\<exists>rate_in rate_out. map_of PRICING model = Some (rate_in, rate_out)"
proof -
  from respond_int [OF assms] obtain c where
    "token_cost model (PInt i) (PInt (out + max 0 (rs - out))) = Inr c" by blast
  from token_cost_int [OF this] show ?thesis by blast
qed

lemma respond_cost_bounded:
  assumes "respond model r = Inr res"
    and "token_usage r = (PInt i, PInt out, PInt rs)"
    and "0 \<le> i" and "0 \<le> out" and "0 \<le> rs"
  shows "\<exists>c n. cost res = Finite c \<and> 0 \<le> c \<and> 0 \<le> n \<and> cost res = fl (of_int n / 1000000)"
proof -
  from respond_pricing [OF assms(1,2)] obtain rate_in rate_out where
    p: "map_of PRICING model = Some (rate_in, rate_out)" by blast
  let ?t = "float_total rate_in rate_out i (out + max 0 (rs - out)) (web_calls r)"
  have "bounded_float 1019 ?t" using assms p by (rule respond_total_bounded)
  then have "\<exists>c n. round6 ?t = Finite c \<and> 0 \<le> c \<and> 0 \<le> n \<and> round6 ?t = fl (of_int n / 1000000)"
    by (rule round6_bounded) simp_all
  then show ?thesis by (simp only: respond_cost_total [OF assms(1,2) p])
qed

lemma respond_cost_rounded:
  assumes "respond model r = Inr res"
    and "token_usage r = (PInt i, PInt out, PInt rs)"
    and "0 \<le> i" and "0 \<le> out" and "0 \<le> rs"
    and "map_of PRICING model = Some (rate_in, rate_out)"
  shows "\<exists>v n. float_total rate_in rate_out i (out + max 0 (rs - out)) (web_calls r) = Finite v
      \<and> 0 \<le> v \<and> n = round_half_even (v * 1000000)
      \<and> \<bar>of_int n / 1000000 - v\<bar> \<le> 1 / 2000000
      \<and> cost res = fl (of_int n / 1000000)"
proof -
  let ?t = "float_total rate_in rate_out i (out + max 0 (rs - out)) (web_calls r)"
  have "bounded_float 1019 ?t" using assms by (rule respond_total_bounded)
  then obtain v where v: "?t = Finite v" "0 \<le> v" by (auto simp: bounded_float_def)
  define n where "n = round_half_even (v * 1000000)"
  have "\<bar>of_int n - v * 1000000\<bar> \<le> 1 / 2" unfolding n_def by (rule rhe_error)
  then have d: "\<bar>of_int n / 1000000 - v\<bar> \<le> 1 / 2000000" by (simp add: abs_le_iff field_simps)
  have "cost res = round6 ?t" using assms(1,2,6) by (rule respond_cost_total)
  then have "cost res = fl (of_int n / 1000000)" by (simp add: v(1) n_def)
  with v d n_def show ?thesis by blast
qed

lemma fallback_cost: "cost fallback = Finite 0 \<and> cost fallback = fl (of_int 0 / 1000000)"
  by (simp add: fallback_def fl_0)

subsection \<open>The concrete inputs, evaluated\<close>

lemma example_text: "extract_text example_response = Inr ''Hello, world!''"
  by (simp add: example_response_def extract_text_def getattr_def web_search_item_def
      assistant_item_def is_assistant_def getattr_default_def strip_def isspace_def)

lemma example_usage_counters:
  "token_usage example_response = (PInt 1000000, PInt 500000, PInt 500000)"
  by (simp add: example_response_def example_usage_def token_usage_def getattr_default_def py_or_def)

lemma example_web_calls: "web_calls example_response = 2"
  by (simp add: example_response_def web_calls_def web_search_item_def assistant_item_def
      is_web_search_call_def getattr_default_def)

lemma example_billable: "billable_out_tok (PInt 500000) (PInt 500000) = Inr (PInt 500000)"
  by (simp add: billable_out_tok_def py_sub_def py_add_def py_max0_def)

lemma pricing_mini: "map_of PRICING ''gpt-5-mini'' = Some (Finite (1 / 4), Finite 2)"
  by (simp add: PRICING_def fl_values)

lemma example_token_cost:
  "token_cost ''gpt-5-mini'' (PInt 1000000) (PInt 500000) = Inr (Finite (5 / 4))"
  by (simp add: token_cost_def pricing_mini to_float_def float_of_int_def py_fdiv_def lit_1e6_def
      fl_values)

lemma example_respond:
  "respond ''gpt-5-mini'' example_response =
     Inr \<lparr>text_response = ''Hello, world!'', raw_response = Some example_response,
          cost = Finite (2859785763380265 / 2251799813685248)\<rparr>"
  by (simp add: respond_def example_text example_usage_counters example_web_calls example_billable
      example_token_cost to_float_def float_of_int_def WEB_SEARCH_COST_PER_CALL_def py_round6_def
      fl_values round6_example del: round6.simps)

lemma example_query:
  "query demo_wrapper (\<lambda>req. Inr example_response) quiet_stdout ''What is new?'' ''gpt-5-mini''
       PNone ''text''
     = (Inr \<lparr>text_response = ''Hello, world!'', raw_response = Some example_response,
              cost = Finite (2859785763380265 / 2251799813685248)\<rparr>,
        [mk_request demo_wrapper ''What is new?'' ''gpt-5-mini'' PNone ''text''])"
  by (simp add: query_unfold pricing_mini example_respond)

lemma pricing_gpt5: "map_of PRICING ''gpt-5'' = Some (Finite (5 / 4), Finite 10)"
  by (simp add: PRICING_def fl_5_4 fl_10)

lemma tie_usage_counters: "token_usage tie_response = (PInt 48734, PInt 9712, PInt 0)"
  by (simp add: tie_response_def token_usage_def getattr_default_def py_or_def)

lemma tie_web_calls: "web_calls tie_response = 0"
  by (simp add: tie_response_def web_calls_def)

lemma tie_text: "extract_text tie_response = Inr []"
  by (simp add: tie_response_def extract_text_def getattr_def)

lemma tie_token_cost:
  "token_cost ''gpt-5'' (PInt 48734) (PInt 9712)
     = Inr (Finite (2846950504442259 / 18014398509481984))"
  by (simp add: token_cost_def pricing_gpt5 to_float_def float_of_int_def py_fdiv_def lit_1e6_def
      fl_tie_values)

lemma tie_respond:
  "respond ''gpt-5'' tie_response =
     Inr \<lparr>text_response = [], raw_response = Some tie_response,
          cost = Finite (5693882994486009 / 36028797018963968)\<rparr>"
proof -
  have b: "billable_out_tok (PInt 9712) (PInt 0) = Inr (PInt 9712)"
    by (simp add: billable_int)
  show ?thesis
    by (simp add: respond_def tie_text tie_usage_counters tie_web_calls b tie_token_cost
        to_float_def float_of_int_def WEB_SEARCH_COST_PER_CALL_def py_round6_def fl_tie_values
        fl_cent round6_tie del: round6.simps)
qed

lemma tie_query:
  "fst (query demo_wrapper (\<lambda>req. Inr tie_response) quiet_stdout ''hi'' ''gpt-5'' PNone ''text'')
     = Inr \<lparr>text_response = [], raw_response = Some tie_response,
            cost = Finite (5693882994486009 / 36028797018963968)\<rparr>"
  by (simp add: query_unfold pricing_gpt5 tie_respond)

lemma zero_usage_respond:
  "respond ''gpt-5-mini'' zero_usage_response =
     Inr \<lparr>text_response = [], raw_response = Some zero_usage_response,
          cost = Finite (5764607523034235 / 576460752303423488)\<rparr>"
proof -
  have t: "extract_text zero_usage_response = Inr []"
    by (simp add: zero_usage_response_def extract_text_def getattr_def web_search_item_def
        is_assistant_def getattr_default_def)
  have u: "token_usage zero_usage_response = (PInt 0, PInt 0, PInt 0)"
    by (simp add: zero_usage_response_def token_usage_def getattr_default_def py_or_def)
  have w: "web_calls zero_usage_response = 1"
    by (simp add: zero_usage_response_def web_calls_def web_search_item_def
        is_web_search_call_def getattr_default_def)
  have b: "billable_out_tok (PInt 0) (PInt 0) = Inr (PInt 0)"
    by (simp add: billable_out_tok_def py_sub_def py_add_def py_max0_def)
  have c: "token_cost ''gpt-5-mini'' (PInt 0) (PInt 0) = Inr (Finite 0)"
    by (simp add: token_cost_def pricing_mini to_float_def float_of_int_def py_fdiv_def lit_1e6_def
        fl_values)
  show ?thesis
    by (simp add: respond_def t u w b c to_float_def float_of_int_def WEB_SEARCH_COST_PER_CALL_def
        py_round6_def fl_values round6_cent del: round6.simps)
qed

section \<open>The cost of a successful query\<close>

text \<open>
  Claim C1, as it stands, says that the cost is the value of the formula rounded to 6
  decimals. In exact arithmetic that fails: for \<^verbatim>\<open>gpt-5\<close> with 48734 input and 9712
  output tokens the formula gives \<open>0.1580375\<close>, which rounds to \<open>0.158038\<close>, but the
  binary64 sum is just below the midpoint and the query returns the float \<open>0.158037\<close>.
\<close>

theorem cost_differs_from_exact_formula:
  "\<exists>res. fst (query demo_wrapper (\<lambda>req. Inr tie_response) quiet_stdout ''hi'' ''gpt-5'' PNone ''text'')
            = Inr res
     \<and> raw_response res = Some tie_response
     \<and> token_usage tie_response = (PInt 48734, PInt 9712, PInt 0)
     \<and> web_calls tie_response = 0
     \<and> cost res = fl (158037 / 1000000)
     \<and> spec_total_cost (1250 / 1000) (10000 / 1000) (1 / 100) 48734 9712 0 = 158038 / 1000000
     \<and> fl (158037 / 1000000) \<noteq> fl (158038 / 1000000)"
proof -
  let ?res = "\<lparr>text_response = [], raw_response = Some tie_response,
              cost = Finite (5693882994486009 / 36028797018963968)\<rparr>"
  have s: "spec_total_cost (1250 / 1000) (10000 / 1000) (1 / 100) 48734 9712 0 = 158038 / 1000000"
  proof -
    have "\<lfloor>(316075::rat) / 2\<rfloor> = 158037" by (rule floor_unique) simp_all
    then show ?thesis by (simp add: spec_total_cost_def round_half_even_def Let_def)
  qed
  have c: "cost ?res = fl (158037 / 1000000)" by (simp add: fl_158037)
  have d: "fl (158037 / 1000000) \<noteq> fl (158038 / 1000000)" by (simp add: fl_158037 fl_158038)
  have r: "raw_response ?res = Some tie_response" by simp
  show ?thesis
    by (rule exI [of _ ?res]) (intro conjI tie_query r tie_usage_counters tie_web_calls c s d)
qed

text \<open>
  Claim C1, amended. A query that succeeds (its result carries the response \<open>r\<close> as
  \<open>raw_response\<close>) with a model of the pricing table and non-negative integer usage
  counters returns the cost obtained from \<open>(input_tokens / 1e6) * input_rate +
  (billable_output_tokens / 1e6) * output_rate + tool_call_count * fee\<close> evaluated in
  binary64, every operation rounded to the nearest float in the order written: that sum
  is a finite float \<open>v\<close>, not negative, and the cost is the float nearest to \<open>n / 10^6\<close>,
  where \<open>n\<close> is \<open>v * 10^6\<close> rounded to the nearest integer, ties to even, so that
  \<open>n / 10^6\<close> is within half a unit of the sixth decimal of \<open>v\<close>. For \<^verbatim>\<open>gpt-5-mini\<close>
  with 1000000 input tokens, 500000 output tokens, 500000 reasoning tokens and 2 tool
  calls the cost is the float \<^verbatim>\<open>1.27\<close>.
\<close>

theorem query_cost_binary64:
  assumes "fst (query self create out prompt model tools fmt) = Inr res"
    and "raw_response res = Some r"
    and "token_usage r = (PInt i, PInt out_tok, PInt rs)"
    and "0 \<le> i" and "0 \<le> out_tok" and "0 \<le> rs"
    and "map_of PRICING model = Some (rate_in, rate_out)"
  shows "(\<exists>v n. float_total rate_in rate_out i (out_tok + max 0 (rs - out_tok)) (web_calls r) = Finite v
           \<and> 0 \<le> v \<and> n = round_half_even (v * 1000000)
           \<and> \<bar>of_int n / 1000000 - v\<bar> \<le> 1 / 2000000
           \<and> cost res = fl (of_int n / 1000000))
    \<and> (model = ''gpt-5-mini'' \<and> i = 1000000 \<and> out_tok = 500000 \<and> rs = 500000 \<and> web_calls r = 2
         \<longrightarrow> cost res = fl (127 / 100))"
proof -
  have rr: "respond model r = Inr res" using assms(1,2) by (rule query_success(2))
  note f = respond_cost_total [OF rr assms(3,7)]
  have "cost res = fl (127 / 100)"
    if "model = ''gpt-5-mini'' \<and> i = 1000000 \<and> out_tok = 500000 \<and> rs = 500000 \<and> web_calls r = 2"
  proof -
    from that assms(7) have rates: "rate_in = Finite (1 / 4)" "rate_out = Finite 2"
      by (simp_all add: pricing_mini)
    show ?thesis
      unfolding f using that
      by (simp add: rates float_total_def float_of_int_def lit_1e6_value
          WEB_SEARCH_COST_PER_CALL_def fl_values round6_example del: round6.simps)
  qed
  with respond_cost_rounded [OF rr assms(3,4,5,6,7)] show ?thesis by blast
qed

theorem query_cost_binary64_witness:
  "(\<exists>res. fst (query demo_wrapper (\<lambda>req. Inr tie_response) quiet_stdout ''hi'' ''gpt-5'' PNone ''text'')
            = Inr res
      \<and> raw_response res = Some tie_response
      \<and> float_total (Finite (5 / 4)) (Finite 10) 48734 9712 0
          = Finite (2846950504442259 / 18014398509481984)
      \<and> round_half_even (2846950504442259 / 18014398509481984 * 1000000) = 158037
      \<and> cost res = fl (158037 / 1000000))
   \<and> (\<exists>res. fst (query demo_wrapper (\<lambda>req. Inr example_response) quiet_stdout ''What is new?''
              ''gpt-5-mini'' PNone ''text'') = Inr res
      \<and> raw_response res = Some example_response
      \<and> token_usage example_response = (PInt 1000000, PInt 500000, PInt 500000)
      \<and> web_calls example_response = 2
      \<and> cost res = fl (127 / 100)
      \<and> cost res = Finite (2859785763380265 / 2251799813685248))"
proof -
  let ?tie = "\<lparr>text_response = [], raw_response = Some tie_response,
              cost = Finite (5693882994486009 / 36028797018963968)\<rparr>"
  have tr: "raw_response ?tie = Some tie_response" by simp
  have nn: "(0::int) \<le> 48734" "(0::int) \<le> 9712" "(0::int) \<le> 0" by simp_all
  note t = query_cost_binary64 [OF tie_query tr tie_usage_counters nn pricing_gpt5]
  have ft: "float_total (Finite (5 / 4)) (Finite 10) 48734 9712 0
      = Finite (2846950504442259 / 18014398509481984)"
    by (simp add: float_total_def float_of_int_def lit_1e6_value WEB_SEARCH_COST_PER_CALL_def
        fl_tie_values fl_cent)
  have rh: "round_half_even (2846950504442259 / 18014398509481984 * 1000000) = 158037"
    using rhe_unique [of "2846950504442259 / 18014398509481984 * 1000000" 158037] by simp
  from t [THEN conjunct1] obtain v n where
    v: "float_total (Finite (5 / 4)) (Finite 10) 48734 (9712 + max 0 (0 - 9712)) (web_calls tie_response)
        = Finite v"
    and n: "n = round_half_even (v * 1000000)" and c: "cost ?tie = fl (of_int n / 1000000)"
    by blast
  from v ft have "v = 2846950504442259 / 18014398509481984" by (simp add: tie_web_calls)
  with n rh have "n = 158037" by simp
  with c have tc: "cost ?tie = fl (158037 / 1000000)" by simp
  have a: "\<exists>res. fst (query demo_wrapper (\<lambda>req. Inr tie_response) quiet_stdout ''hi'' ''gpt-5''
              PNone ''text'') = Inr res
      \<and> raw_response res = Some tie_response
      \<and> float_total (Finite (5 / 4)) (Finite 10) 48734 9712 0
          = Finite (2846950504442259 / 18014398509481984)
      \<and> round_half_even (2846950504442259 / 18014398509481984 * 1000000) = 158037
      \<and> cost res = fl (158037 / 1000000)"
    by (rule exI [of _ ?tie]) (intro conjI tie_query tr ft rh tc)
  let ?res = "\<lparr>text_response = ''Hello, world!'', raw_response = Some example_response,
              cost = Finite (2859785763380265 / 2251799813685248)\<rparr>"
  have q: "fst (query demo_wrapper (\<lambda>req. Inr example_response) quiet_stdout ''What is new?''
              ''gpt-5-mini'' PNone ''text'') = Inr ?res"
    by (simp add: example_query)
  have r: "raw_response ?res = Some example_response" by simp
  have nn': "(0::int) \<le> 1000000" "(0::int) \<le> 500000" "(0::int) \<le> 500000" by simp_all
  note u = query_cost_binary64 [OF q r example_usage_counters nn' pricing_mini]
  have h: "''gpt-5-mini'' = ''gpt-5-mini'' \<and> (1000000::int) = 1000000 \<and> (500000::int) = 500000
      \<and> (500000::int) = 500000 \<and> web_calls example_response = 2"
    by (simp add: example_web_calls)
  have ec: "cost ?res = fl (127 / 100)"
    by (rule u [THEN conjunct2, THEN mp, OF h])
  have ed: "cost ?res = Finite (2859785763380265 / 2251799813685248)" by simp
  have b: "\<exists>res. fst (query demo_wrapper (\<lambda>req. Inr example_response) quiet_stdout ''What is new?''
              ''gpt-5-mini'' PNone ''text'') = Inr res
      \<and> raw_response res = Some example_response
      \<and> token_usage example_response = (PInt 1000000, PInt 500000, PInt 500000)
      \<and> web_calls example_response = 2
      \<and> cost res = fl (127 / 100)
      \<and> cost res = Finite (2859785763380265 / 2251799813685248)"
    by (rule exI [of _ ?res]) (intro conjI q r example_usage_counters example_web_calls ec ed)
  from a b show ?thesis by (rule conjI)
qed

section \<open>Billable output tokens\<close>

text \<open>
  Claim C2. For non-negative integers \<open>out\<close> and \<open>reasoning\<close>, the billable output
  token count that line 63 computes is \<open>out + max 0 (reasoning - out)\<close>: it is \<open>out\<close>
  when \<open>reasoning \<le> out\<close> and \<open>reasoning\<close> when \<open>out < reasoning\<close>.
\<close>

theorem billable_out_tok_int:
  assumes "0 \<le> out" and "0 \<le> reasoning"
  shows "billable_out_tok (PInt out) (PInt reasoning) = Inr (PInt (out + max 0 (reasoning - out)))
     \<and> (reasoning \<le> out \<longrightarrow> billable_out_tok (PInt out) (PInt reasoning) = Inr (PInt out))
     \<and> (out < reasoning \<longrightarrow> billable_out_tok (PInt out) (PInt reasoning) = Inr (PInt reasoning))"
  by (simp add: billable_out_tok_def py_sub_def py_add_def py_max0_def ebind_def)

theorem billable_out_tok_int_witness:
  "billable_out_tok (PInt 500000) (PInt 500000) = Inr (PInt 500000)
     \<and> billable_out_tok (PInt 100) (PInt 250) = Inr (PInt 250)
     \<and> billable_out_tok (PInt 100) (PInt 40) = Inr (PInt 100)"
  using billable_out_tok_int [of 500000 500000] billable_out_tok_int [of 100 250]
    billable_out_tok_int [of 100 40]
  by simp

section \<open>Exceptions and the fallback result\<close>

text \<open>
  Claim C3, as it stands, says that the query propagates no exception at all. The
  handler is \<^verbatim>\<open>except Exception\<close>: when the client raises \<^verbatim>\<open>KeyboardInterrupt\<close>, which is
  not of class \<^verbatim>\<open>Exception\<close>, the query passes it on to its caller.
\<close>

theorem query_propagates_keyboard_interrupt:
  "fst (query demo_wrapper (\<lambda>req. Inl KeyboardInterrupt) quiet_stdout ''hi'' ''gpt-5-mini'' PNone ''text'')
     = Inl KeyboardInterrupt"
  by (simp add: query_unfold pricing_mini except_Exception_def)

text \<open>
  Claim C3, amended. On every prompt, model, tool set and response format, and whenever
  the handler's two writes to the output stream succeed: every exception of class
  \<^verbatim>\<open>Exception\<close> raised in the \<^verbatim>\<open>try\<close> block (the model is not in the pricing table, the
  client raises one, or the response makes text extraction or costing raise, which
  raise no other kind) is absorbed and the query returns the fallback
  \<open>text_response = ""\<close>, \<open>raw_response = None\<close>, \<open>cost = 0.0\<close>; the query propagates an
  exception exactly when the client raises one outside class \<^verbatim>\<open>Exception\<close>, and then
  that one. What happens when a write of the handler raises is left open here.
\<close>

theorem query_absorbs_exceptions:
  assumes "\<forall>d. out d = None"
  shows "(\<forall>e. fst (query_try self create prompt model tools fmt) = Inl e \<and> is_Exception e
           \<longrightarrow> fst (query self create out prompt model tools fmt) = Inr fallback)
   \<and> (map_of PRICING model = None
        \<longrightarrow> fst (query self create out prompt model tools fmt) = Inr fallback)
   \<and> (\<forall>e. create (mk_request self prompt model tools fmt) = Inl e \<and> is_Exception e
        \<longrightarrow> fst (query self create out prompt model tools fmt) = Inr fallback)
   \<and> (\<forall>r e. create (mk_request self prompt model tools fmt) = Inr r \<and> respond model r = Inl e
        \<longrightarrow> is_Exception e \<and> fst (query self create out prompt model tools fmt) = Inr fallback)
   \<and> (\<forall>e. fst (query self create out prompt model tools fmt) = Inl e \<longleftrightarrow>
          map_of PRICING model \<noteq> None \<and> create (mk_request self prompt model tools fmt) = Inl e
          \<and> \<not> is_Exception e)"
proof -
  note unsup = except_quiet [OF assms unsupported_is_Exception]
  have c1: "\<forall>e. fst (query_try self create prompt model tools fmt) = Inl e \<and> is_Exception e
           \<longrightarrow> fst (query self create out prompt model tools fmt) = Inr fallback"
    using query_of_raise [OF assms] by blast
  have c2: "map_of PRICING model = None
        \<longrightarrow> fst (query self create out prompt model tools fmt) = Inr fallback"
    by (simp add: query_unfold unsup)
  have c3: "\<forall>e. create (mk_request self prompt model tools fmt) = Inl e \<and> is_Exception e
        \<longrightarrow> fst (query self create out prompt model tools fmt) = Inr fallback"
  proof (intro allI impI)
    fix e assume a: "create (mk_request self prompt model tools fmt) = Inl e \<and> is_Exception e"
    then have "except_Exception out e = Inr fallback" by (simp add: except_quiet [OF assms])
    with a show "fst (query self create out prompt model tools fmt) = Inr fallback"
      by (simp add: query_unfold unsup)
  qed
  have c4: "\<forall>r e. create (mk_request self prompt model tools fmt) = Inr r \<and> respond model r = Inl e
        \<longrightarrow> is_Exception e \<and> fst (query self create out prompt model tools fmt) = Inr fallback"
  proof (intro allI impI)
    fix r e
    assume a: "create (mk_request self prompt model tools fmt) = Inr r \<and> respond model r = Inl e"
    then have ex: "is_Exception e" using respond_Inl by blast
    then have "except_Exception out e = Inr fallback" by (rule except_quiet [OF assms])
    with a have "fst (query self create out prompt model tools fmt) = Inr fallback"
      by (simp add: query_unfold unsup)
    with ex show "is_Exception e \<and> fst (query self create out prompt model tools fmt) = Inr fallback"
      by simp
  qed
  have c5: "\<forall>e. fst (query self create out prompt model tools fmt) = Inl e \<longleftrightarrow>
          map_of PRICING model \<noteq> None \<and> create (mk_request self prompt model tools fmt) = Inl e
          \<and> \<not> is_Exception e"
    using query_raises_iff [OF assms] by blast
  show ?thesis by (intro conjI c1 c2 c3 c4 c5)
qed

theorem query_absorbs_exceptions_witness:
  "fst (query demo_wrapper (\<lambda>req. Inl (ClientError ''timed out'')) quiet_stdout ''hi'' ''gpt-5-mini''
          PNone ''text'') = Inr fallback
   \<and> fst (query demo_wrapper (\<lambda>req. Inr no_output_response) quiet_stdout ''hi'' ''gpt-5-mini''
          PNone ''text'') = Inr fallback
   \<and> fst (query demo_wrapper (\<lambda>req. Inr example_response) quiet_stdout ''hi'' ''gpt-4''
          PNone ''text'') = Inr fallback
   \<and> fst (query demo_wrapper (\<lambda>req. Inl SystemExit) quiet_stdout ''hi'' ''gpt-5''
          PNone ''text'') = Inl SystemExit"
proof -
  have quiet: "\<forall>d. quiet_stdout d = None" by (simp add: quiet_stdout_def)
  have a: "(\<lambda>req. Inl (ClientError ''timed out'') :: exn + pyval)
        (mk_request demo_wrapper ''hi'' ''gpt-5-mini'' PNone ''text'') = Inl (ClientError ''timed out'')
      \<and> is_Exception (ClientError ''timed out'')"
    by simp
  have b: "(\<lambda>req. Inr no_output_response :: exn + pyval)
        (mk_request demo_wrapper ''hi'' ''gpt-5-mini'' PNone ''text'') = Inr no_output_response
      \<and> respond ''gpt-5-mini'' no_output_response = Inl AttributeError"
    by (simp add: respond_def extract_text_def getattr_def no_output_response_def)
  have c: "map_of PRICING ''gpt-4'' = None" by (simp add: PRICING_def)
  have d: "map_of PRICING ''gpt-5'' \<noteq> None
      \<and> (\<lambda>req. Inl SystemExit :: exn + pyval) (mk_request demo_wrapper ''hi'' ''gpt-5'' PNone ''text'')
          = Inl SystemExit
      \<and> \<not> is_Exception SystemExit"
    by (simp add: pricing_gpt5)
  note t1 = query_absorbs_exceptions [OF quiet, of demo_wrapper
      "\<lambda>req. Inl (ClientError ''timed out'')" "''hi''" "''gpt-5-mini''" PNone "''text''"]
  note t2 = query_absorbs_exceptions [OF quiet, of demo_wrapper
      "\<lambda>req. Inr no_output_response" "''hi''" "''gpt-5-mini''" PNone "''text''"]
  note t3 = query_absorbs_exceptions [OF quiet, of demo_wrapper
      "\<lambda>req. Inr example_response" "''hi''" "''gpt-4''" PNone "''text''"]
  note t4 = query_absorbs_exceptions [OF quiet, of demo_wrapper
      "\<lambda>req. Inl SystemExit" "''hi''" "''gpt-5''" PNone "''text''"]
  from t1 a have "fst (query demo_wrapper (\<lambda>req. Inl (ClientError ''timed out'')) quiet_stdout ''hi''
      ''gpt-5-mini'' PNone ''text'') = Inr fallback" by blast
  moreover from t2 b have "fst (query demo_wrapper (\<lambda>req. Inr no_output_response) quiet_stdout ''hi''
      ''gpt-5-mini'' PNone ''text'') = Inr fallback" by blast
  moreover from t3 c have "fst (query demo_wrapper (\<lambda>req. Inr example_response) quiet_stdout ''hi''
      ''gpt-4'' PNone ''text'') = Inr fallback" by blast
  moreover from t4 d have "fst (query demo_wrapper (\<lambda>req. Inl SystemExit) quiet_stdout ''hi''
      ''gpt-5'' PNone ''text'') = Inl SystemExit" by blast
  ultimately show ?thesis by simp
qed

text \<open>
  Claim C4. The claim is that for a model outside the pricing table the query returns
  the fallback and never invokes the client. The check of line 42 does precede the call
  of line 46, so no request is dispatched (\<open>query_no_dispatch\<close>). But the handler then
  prints a line that contains the model name, unguarded: on a stream that cannot encode
  the name (here \<open>gpt-\<close> followed by the character 233 on an ASCII stream) the print
  raises \<^verbatim>\<open>UnicodeEncodeError\<close> and the query raises it instead of returning the fallback.
  On a stream that takes the line the result is the fallback.
\<close>

theorem unsupported_model_print_raises:
  "map_of PRICING (''gpt-'' @ [CHR 0xE9]) = None
   \<and> query demo_wrapper (\<lambda>req. Inr example_response) ascii_stdout ''hi'' (''gpt-'' @ [CHR 0xE9])
        PNone ''text'' = (Inl UnicodeEncodeError, [])
   \<and> query demo_wrapper (\<lambda>req. Inr example_response) quiet_stdout ''hi'' (''gpt-'' @ [CHR 0xE9])
        PNone ''text'' = (Inr fallback, [])"
proof -
  have p: "map_of PRICING (''gpt-'' @ [CHR 0xE9]) = None" by (simp add: PRICING_def)
  have a: "except_Exception ascii_stdout (unsupported (''gpt-'' @ [CHR 0xE9])) = Inl UnicodeEncodeError"
    by (simp add: except_Exception_def report_def ascii_stdout_def unsupported_def)
  have b: "except_Exception quiet_stdout (unsupported (''gpt-'' @ [CHR 0xE9])) = Inr fallback"
    by (simp add: except_Exception_def report_def quiet_stdout_def unsupported_def)
  show ?thesis by (simp only: query_unfold p a b if_True simp_thms)
qed

section \<open>Text extraction\<close>



section \<open>A response without an output sequence\<close>

text \<open>
  Claim C6. The claim is that a response whose \<^verbatim>\<open>output\<close> is absent or not a sequence
  is still normalised, with empty text and no tool calls, and costed from its usage
  counters. Line 71 guards the tool-call count with \<^verbatim>\<open>hasattr\<close> and \<^verbatim>\<open>isinstance\<close>, but
  line 51 reads \<^verbatim>\<open>r.output\<close> unguarded and iterates it: text extraction raises
  \<^verbatim>\<open>AttributeError\<close> (absent) or \<^verbatim>\<open>TypeError\<close> (\<^verbatim>\<open>None\<close>), and the query returns the
  fallback with cost \<open>0.0\<close>, although the usage counters price the call at \<open>0.25\<close>.
\<close>

theorem absent_output_falls_back:
  "query demo_wrapper (\<lambda>req. Inr no_output_response) quiet_stdout ''hi'' ''gpt-5-mini'' PNone ''text''
     = (Inr fallback, [mk_request demo_wrapper ''hi'' ''gpt-5-mini'' PNone ''text''])
   \<and> query demo_wrapper (\<lambda>req. Inr none_output_response) quiet_stdout ''hi'' ''gpt-5-mini'' PNone ''text''
     = (Inr fallback, [mk_request demo_wrapper ''hi'' ''gpt-5-mini'' PNone ''text''])
   \<and> extract_text no_output_response = Inl AttributeError
   \<and> extract_text none_output_response = Inl TypeError
   \<and> web_calls no_output_response = 0
   \<and> web_calls none_output_response = 0
   \<and> token_usage no_output_response = (PInt 1000000, PInt 0, PInt 0)
   \<and> token_cost ''gpt-5-mini'' (PInt 1000000) (PInt 0) = Inr (Finite (1 / 4))"
proof -
  have a: "extract_text no_output_response = Inl AttributeError"
    by (simp add: no_output_response_def extract_text_def getattr_def)
  have b: "extract_text none_output_response = Inl TypeError"
    by (simp add: none_output_response_def extract_text_def getattr_def)
  have c: "token_cost ''gpt-5-mini'' (PInt 1000000) (PInt 0) = Inr (Finite (1 / 4))"
    by (simp add: token_cost_def pricing_mini to_float_def float_of_int_def py_fdiv_def lit_1e6_def
        fl_values)
  have d: "token_usage no_output_response = (PInt 1000000, PInt 0, PInt 0)"
    by (simp add: no_output_response_def token_usage_def getattr_default_def py_or_def)
  have q: "\<forall>d. quiet_stdout d = None" by (simp add: quiet_stdout_def)
  have h1: "except_Exception quiet_stdout AttributeError = Inr fallback"
    by (rule except_quiet [OF q]) simp
  have h2: "except_Exception quiet_stdout TypeError = Inr fallback"
    by (rule except_quiet [OF q]) simp
  show ?thesis
    by (simp add: a b c d h1 h2 query_unfold pricing_mini respond_def)
      (simp add: no_output_response_def none_output_response_def web_calls_def)
qed

section \<open>Usage counters\<close>

text \<open>
  Claim C7. With \<open>u\<close> the usage summary (or \<^verbatim>\<open>None\<close> when the response has none) and
  \<open>d\<close> its \<^verbatim>\<open>output_tokens_details\<close> (or \<^verbatim>\<open>None\<close>): a counter that is missing or falsy
  (\<^verbatim>\<open>None\<close>, \<open>0\<close>, \<^verbatim>\<open>False\<close>, an empty str or list) is read as the int \<open>0\<close>, any other
  value is read as it is, and nothing is raised. The cost depends on the response only
  through its \<^verbatim>\<open>output\<close> and these three counters, so a response with missing counters
  costs what the same response with explicit zero counters costs.
\<close>

theorem usage_defaults:
  assumes "getattr_default r ''usage'' PNone = u"
    and "getattr_default u ''output_tokens_details'' PNone = d"
  shows "(attr r ''usage'' = None \<longrightarrow> token_usage r = (PInt 0, PInt 0, PInt 0))
   \<and> ((attr u ''input_tokens'' = None \<or> (\<exists>v. attr u ''input_tokens'' = Some v \<and> \<not> truthy v))
        \<longrightarrow> fst (token_usage r) = PInt 0)
   \<and> (\<forall>v. attr u ''input_tokens'' = Some v \<and> truthy v \<longrightarrow> fst (token_usage r) = v)
   \<and> ((attr u ''output_tokens'' = None \<or> (\<exists>v. attr u ''output_tokens'' = Some v \<and> \<not> truthy v))
        \<longrightarrow> fst (snd (token_usage r)) = PInt 0)
   \<and> (\<forall>v. attr u ''output_tokens'' = Some v \<and> truthy v \<longrightarrow> fst (snd (token_usage r)) = v)
   \<and> ((attr u ''output_tokens_details'' = None \<or> attr d ''reasoning_tokens'' = None
         \<or> (\<exists>v. attr d ''reasoning_tokens'' = Some v \<and> \<not> truthy v))
        \<longrightarrow> snd (snd (token_usage r)) = PInt 0)
   \<and> (\<forall>v. attr d ''reasoning_tokens'' = Some v \<and> truthy v \<longrightarrow> snd (snd (token_usage r)) = v)
   \<and> (\<forall>r' model. attr r' ''output'' = attr r ''output'' \<and> token_usage r' = token_usage r
         \<longrightarrow> map_sum id cost (respond model r') = map_sum id cost (respond model r))"
proof -
  note f = usage_field [OF assms(1)]
  have i: "fst (token_usage r) =
      (case attr u ''input_tokens'' of None \<Rightarrow> PInt 0 | Some v \<Rightarrow> if truthy v then v else PInt 0)"
    using f by simp
  have o: "fst (snd (token_usage r)) =
      (case attr u ''output_tokens'' of None \<Rightarrow> PInt 0 | Some v \<Rightarrow> if truthy v then v else PInt 0)"
    using f by simp
  have s: "snd (snd (token_usage r)) =
      (case attr d ''reasoning_tokens'' of None \<Rightarrow> PInt 0 | Some v \<Rightarrow> if truthy v then v else PInt 0)"
    using f assms(2) by simp
  have dn: "attr u ''output_tokens_details'' = None \<Longrightarrow> attr d ''reasoning_tokens'' = None"
    using assms(2) by (auto simp: getattr_default_def)
  have c1: "attr r ''usage'' = None \<longrightarrow> token_usage r = (PInt 0, PInt 0, PInt 0)"
    by (simp add: token_usage_cases getattr_default_def)
  have c2: "(attr u ''input_tokens'' = None \<or> (\<exists>v. attr u ''input_tokens'' = Some v \<and> \<not> truthy v))
        \<longrightarrow> fst (token_usage r) = PInt 0"
    unfolding i by auto
  have c3: "\<forall>v. attr u ''input_tokens'' = Some v \<and> truthy v \<longrightarrow> fst (token_usage r) = v"
    unfolding i by auto
  have c4: "(attr u ''output_tokens'' = None \<or> (\<exists>v. attr u ''output_tokens'' = Some v \<and> \<not> truthy v))
        \<longrightarrow> fst (snd (token_usage r)) = PInt 0"
    unfolding o by auto
  have c5: "\<forall>v. attr u ''output_tokens'' = Some v \<and> truthy v \<longrightarrow> fst (snd (token_usage r)) = v"
    unfolding o by auto
  have c6: "(attr u ''output_tokens_details'' = None \<or> attr d ''reasoning_tokens'' = None
         \<or> (\<exists>v. attr d ''reasoning_tokens'' = Some v \<and> \<not> truthy v))
        \<longrightarrow> snd (snd (token_usage r)) = PInt 0"
    unfolding s using dn by auto
  have c7: "\<forall>v. attr d ''reasoning_tokens'' = Some v \<and> truthy v \<longrightarrow> snd (snd (token_usage r)) = v"
    unfolding s by auto
  have c8: "\<forall>r' model. attr r' ''output'' = attr r ''output'' \<and> token_usage r' = token_usage r
         \<longrightarrow> map_sum id cost (respond model r') = map_sum id cost (respond model r)"
    by (blast intro: respond_cong(1))
  show ?thesis by (intro conjI c1 c2 c3 c4 c5 c6 c7 c8)
qed

theorem usage_defaults_witness:
  "token_usage no_usage_response = (PInt 0, PInt 0, PInt 0)
   \<and> token_usage partial_usage_response = (PInt 0, PInt 0, PInt 0)
   \<and> map_sum id cost (respond ''gpt-5-mini'' partial_usage_response)
       = Inr (Finite (5764607523034235 / 576460752303423488))
   \<and> map_sum id cost (respond ''gpt-5-mini'' no_usage_response)
       = Inr (Finite (5764607523034235 / 576460752303423488))"
proof -
  have gn: "getattr_default no_usage_response ''usage'' PNone = PNone"
    by (simp add: no_usage_response_def getattr_default_def)
  have dn: "getattr_default PNone ''output_tokens_details'' PNone = PNone"
    by (simp add: getattr_default_def)
  have n: "token_usage no_usage_response = (PInt 0, PInt 0, PInt 0)"
    using usage_defaults [OF gn dn] by (simp add: no_usage_response_def)
  define u where "u = PObj [(''input_tokens'', PNone), (''output_tokens'', PInt 0)]"
  have gu: "getattr_default partial_usage_response ''usage'' PNone = u"
    by (simp add: partial_usage_response_def getattr_default_def u_def)
  have du: "getattr_default u ''output_tokens_details'' PNone = PNone"
    by (simp add: getattr_default_def u_def)
  note p = usage_defaults [OF gu du]
  have p1: "fst (token_usage partial_usage_response) = PInt 0"
    using p by (simp add: u_def)
  have p2: "fst (snd (token_usage partial_usage_response)) = PInt 0"
    using p by (simp add: u_def)
  have p3: "snd (snd (token_usage partial_usage_response)) = PInt 0"
    using p by (simp add: u_def)
  have pu: "token_usage partial_usage_response = (PInt 0, PInt 0, PInt 0)"
    using p1 p2 p3 by (cases "token_usage partial_usage_response") simp
  have z: "token_usage zero_usage_response = (PInt 0, PInt 0, PInt 0)"
    by (simp add: zero_usage_response_def token_usage_def getattr_default_def py_or_def)
  have gz: "getattr_default zero_usage_response ''usage'' PNone =
      PObj [(''input_tokens'', PInt 0), (''output_tokens'', PInt 0),
            (''output_tokens_details'', PObj [(''reasoning_tokens'', PInt 0)])]"
    by (simp add: zero_usage_response_def getattr_default_def)
  have same: "\<forall>r' model. attr r' ''output'' = attr zero_usage_response ''output''
        \<and> token_usage r' = token_usage zero_usage_response
      \<longrightarrow> map_sum id cost (respond model r') = map_sum id cost (respond model zero_usage_response)"
    using usage_defaults [OF gz refl] by blast
  have op: "attr partial_usage_response ''output'' = attr zero_usage_response ''output''"
    by (simp add: partial_usage_response_def zero_usage_response_def)
  have on: "attr no_usage_response ''output'' = attr zero_usage_response ''output''"
    by (simp add: no_usage_response_def zero_usage_response_def)
  have "map_sum id cost (respond ''gpt-5-mini'' partial_usage_response)
      = map_sum id cost (respond ''gpt-5-mini'' zero_usage_response)"
    using same [rule_format, of partial_usage_response "''gpt-5-mini''"] op pu z by simp
  moreover have "map_sum id cost (respond ''gpt-5-mini'' no_usage_response)
      = map_sum id cost (respond ''gpt-5-mini'' zero_usage_response)"
    using same [rule_format, of no_usage_response "''gpt-5-mini''"] on n z by simp
  ultimately show ?thesis using n pu by (simp add: zero_usage_respond)
qed

section \<open>The cost is finite, non-negative and rounded\<close>

text \<open>
  Claim C8. If the usage counters of whatever response the client returns are
  non-negative integers, the cost of every result that the query returns is a finite
  float, not negative, and the float nearest to \<open>n / 1000000\<close> for a non-negative
  integer \<open>n\<close>: a value rounded to 6 decimals. This covers the fallback (cost \<open>0.0\<close>)
  and every success; the number of tool calls is a count and never negative. And the
  query does return such a result when the handler's writes succeed and the client
  raises nothing outside class \<^verbatim>\<open>Exception\<close>.
\<close>

theorem query_cost_invariant:
  assumes "\<forall>r. create (mk_request self prompt model tools fmt) = Inr r \<longrightarrow>
             (\<exists>i out_tok rs. token_usage r = (PInt i, PInt out_tok, PInt rs)
                \<and> 0 \<le> i \<and> 0 \<le> out_tok \<and> 0 \<le> rs)"
  shows "(\<forall>res. fst (query self create out prompt model tools fmt) = Inr res \<longrightarrow>
           (\<exists>c n. cost res = Finite c \<and> 0 \<le> c \<and> 0 \<le> n \<and> cost res = fl (of_int n / 1000000)))
    \<and> ((\<forall>d. out d = None)
        \<and> (\<forall>e. create (mk_request self prompt model tools fmt) = Inl e \<longrightarrow> is_Exception e)
       \<longrightarrow> (\<exists>res c n. fst (query self create out prompt model tools fmt) = Inr res
             \<and> cost res = Finite c \<and> 0 \<le> c \<and> 0 \<le> n \<and> cost res = fl (of_int n / 1000000)))"
proof -
  have inv: "\<exists>c n. cost res = Finite c \<and> 0 \<le> c \<and> 0 \<le> n \<and> cost res = fl (of_int n / 1000000)"
    if res: "fst (query self create out prompt model tools fmt) = Inr res" for res
  proof (cases "res = fallback")
    case True
    then have "cost res = Finite 0 \<and> (0::rat) \<le> 0 \<and> (0::int) \<le> 0
        \<and> cost res = fl (of_int 0 / 1000000)"
      using fallback_cost by (simp add: fl_0)
    then show ?thesis by blast
  next
    case False
    with query_Inr [OF res] obtain r where
      cr: "create (mk_request self prompt model tools fmt) = Inr r"
      and rr: "respond model r = Inr res" by blast
    from assms cr obtain i out_tok rs where
      u: "token_usage r = (PInt i, PInt out_tok, PInt rs)" and nn: "0 \<le> i" "0 \<le> out_tok" "0 \<le> rs"
      by blast
    from respond_cost_bounded [OF rr u nn] show ?thesis .
  qed
  have ret: "\<exists>res c n. fst (query self create out prompt model tools fmt) = Inr res
        \<and> cost res = Finite c \<and> 0 \<le> c \<and> 0 \<le> n \<and> cost res = fl (of_int n / 1000000)"
    if h: "(\<forall>d. out d = None)
        \<and> (\<forall>e. create (mk_request self prompt model tools fmt) = Inl e \<longrightarrow> is_Exception e)"
  proof -
    from h have "\<exists>res. fst (query self create out prompt model tools fmt) = Inr res"
      by (intro query_quiet_returns) simp_all
    then obtain res where res: "fst (query self create out prompt model tools fmt) = Inr res" ..
    from inv [OF res] res show ?thesis by blast
  qed
  from inv ret show ?thesis by blast
qed

theorem query_cost_invariant_witness:
  "\<exists>res c n. fst (query demo_wrapper (\<lambda>req. Inr example_response) quiet_stdout ''What is new?''
              ''gpt-5-mini'' PNone ''text'') = Inr res
     \<and> cost res = Finite c \<and> 0 \<le> c \<and> 0 \<le> n \<and> cost res = fl (of_int n / 1000000)"
proof -
  have u: "\<forall>r. (\<lambda>req. Inr example_response)
            (mk_request demo_wrapper ''What is new?'' ''gpt-5-mini'' PNone ''text'') = Inr r \<longrightarrow>
          (\<exists>i out_tok rs. token_usage r = (PInt i, PInt out_tok, PInt rs)
             \<and> 0 \<le> i \<and> 0 \<le> out_tok \<and> 0 \<le> rs)"
    by (simp add: example_usage_counters)
  have h: "(\<forall>d. quiet_stdout d = None)
      \<and> (\<forall>e. (\<lambda>req. Inr example_response :: exn + pyval)
            (mk_request demo_wrapper ''What is new?'' ''gpt-5-mini'' PNone ''text'') = Inl e
         \<longrightarrow> is_Exception e)"
    by (simp add: quiet_stdout_def)
  note t = query_cost_invariant [where create = "\<lambda>req. Inr example_response"
      and self = demo_wrapper and prompt = "''What is new?''" and model = "''gpt-5-mini''"
      and tools = PNone and fmt = "''text''" and out = quiet_stdout]
  from t [OF u, THEN conjunct2, THEN mp, OF h] show ?thesis .
qed

section \<open>Construction\<close>

text \<open>
  Claim C9, as it stands, says that the credential error of the constructor is the only
  exception that can reach the caller. A wrapper is constructed with a key, and its
  query then passes the client's \<^verbatim>\<open>SystemExit\<close> on to the caller.
\<close>

theorem construction_error_not_the_only_escape:
  "init (\<lambda>e. e) (\<lambda>k. None) (Some ''sk-demo'') 1000 = Inr demo_wrapper
   \<and> fst (query demo_wrapper (\<lambda>req. Inl SystemExit) quiet_stdout ''hi'' ''gpt-5-mini'' PNone ''text'')
       = Inl SystemExit"
  by (simp add: init_def demo_wrapper_def query_unfold pricing_mini except_Exception_def)

text \<open>
  Claim C9, amended. The constructor raises exactly when neither the \<^verbatim>\<open>api_key\<close>
  argument nor the environment variable \<^verbatim>\<open>OPENAI_API_KEY\<close> (read after \<^verbatim>\<open>load_dotenv\<close>)
  holds a non-empty key, and what it raises is \<^verbatim>\<open>ValueError("OPENAI_API_KEY not found.")\<close>.
  It is not the only exception that reaches the caller: when the handler's writes
  succeed, the query propagates exactly the exceptions outside class \<^verbatim>\<open>Exception\<close>
  that the client raises, and absorbs every other.
\<close>

theorem init_raises_iff:
  "((\<exists>e. init load_dotenv environ key tmo = Inl e) \<longleftrightarrow>
      (key = None \<or> key = Some []) \<and>
      (load_dotenv environ ''OPENAI_API_KEY'' = None \<or> load_dotenv environ ''OPENAI_API_KEY'' = Some []))
   \<and> (\<forall>e. init load_dotenv environ key tmo = Inl e \<longrightarrow> e = ValueError ''OPENAI_API_KEY not found.'')
   \<and> (\<forall>self create out prompt model tools fmt e.
        (\<forall>d. out d = None) \<longrightarrow>
        (fst (query self create out prompt model tools fmt) = Inl e \<longleftrightarrow>
           map_of PRICING model \<noteq> None \<and> create (mk_request self prompt model tools fmt) = Inl e
           \<and> \<not> is_Exception e))"
proof (intro conjI allI impI)
  show "(\<exists>e. init load_dotenv environ key tmo = Inl e) \<longleftrightarrow>
      (key = None \<or> key = Some []) \<and>
      (load_dotenv environ ''OPENAI_API_KEY'' = None \<or> load_dotenv environ ''OPENAI_API_KEY'' = Some [])"
    by (auto simp: init_def Let_def split: option.splits if_splits)
next
  fix e assume "init load_dotenv environ key tmo = Inl e"
  then show "e = ValueError ''OPENAI_API_KEY not found.''"
    by (auto simp: init_def Let_def split: option.splits if_splits)
next
  fix self create and out :: stdout and prompt model tools fmt e
  assume "\<forall>d. out d = None"
  then show "fst (query self create out prompt model tools fmt) = Inl e \<longleftrightarrow>
           map_of PRICING model \<noteq> None \<and> create (mk_request self prompt model tools fmt) = Inl e
           \<and> \<not> is_Exception e"
    by (rule query_raises_iff)
qed

theorem init_raises_iff_witness:
  "init (\<lambda>e. e) (\<lambda>k. None) None 1000 = Inl (ValueError ''OPENAI_API_KEY not found.'')
   \<and> init (\<lambda>e. e) (\<lambda>k. None) (Some ''sk-demo'') 1000 = Inr \<lparr>api_key = ''sk-demo'', timeout = 1000\<rparr>
   \<and> init (\<lambda>e. e) (\<lambda>k. if k = ''OPENAI_API_KEY'' then Some ''sk-env'' else None) None 1000
       = Inr \<lparr>api_key = ''sk-env'', timeout = 1000\<rparr>
   \<and> fst (query demo_wrapper (\<lambda>req. Inl GeneratorExit) quiet_stdout ''hi'' ''gpt-5-nano'' PNone ''text'')
       = Inl GeneratorExit"
proof -
  note t = init_raises_iff [of "\<lambda>e. e" "\<lambda>k. None" None 1000]
  from t obtain e where "init (\<lambda>e. e) (\<lambda>k. None) None 1000 = Inl e" by auto
  moreover from this t have "e = ValueError ''OPENAI_API_KEY not found.''" by blast
  ultimately have a: "init (\<lambda>e. e) (\<lambda>k. None) None 1000 = Inl (ValueError ''OPENAI_API_KEY not found.'')"
    by simp
  have quiet: "quiet_stdout d = None" for d by (simp add: quiet_stdout_def)
  have h: "map_of PRICING ''gpt-5-nano'' \<noteq> None
      \<and> (\<lambda>req. Inl GeneratorExit :: exn + pyval)
          (mk_request demo_wrapper ''hi'' ''gpt-5-nano'' PNone ''text'') = Inl GeneratorExit
      \<and> \<not> is_Exception GeneratorExit"
    by (simp add: PRICING_def)
  note q = t [THEN conjunct2, THEN conjunct2, rule_format, where out = quiet_stdout
      and self = demo_wrapper and create = "\<lambda>req. Inl GeneratorExit" and prompt = "''hi''"
      and model = "''gpt-5-nano''" and tools = PNone and fmt = "''text''" and e = GeneratorExit]
  from q [OF quiet] h
  have b: "fst (query demo_wrapper (\<lambda>req. Inl GeneratorExit) quiet_stdout ''hi'' ''gpt-5-nano''
      PNone ''text'') = Inl GeneratorExit" by blast
  show ?thesis using a b by (simp add: init_def)
qed

text \<open>
  Claim C10. An empty \<^verbatim>\<open>api_key\<close> argument is treated as an absent one: the
  constructor behaves as with \<^verbatim>\<open>None\<close>, takes the key from the environment variable
  when that is non-empty and raises otherwise; the stored key is never empty.
\<close>

theorem init_falsy_key:
  "init load_dotenv environ (Some []) tmo = init load_dotenv environ None tmo
   \<and> ((load_dotenv environ ''OPENAI_API_KEY'' = None \<or> load_dotenv environ ''OPENAI_API_KEY'' = Some [])
        \<longrightarrow> init load_dotenv environ (Some []) tmo = Inl (ValueError ''OPENAI_API_KEY not found.''))
   \<and> (\<forall>s. load_dotenv environ ''OPENAI_API_KEY'' = Some s \<and> s \<noteq> []
        \<longrightarrow> init load_dotenv environ (Some []) tmo = Inr \<lparr>api_key = s, timeout = tmo\<rparr>)
   \<and> (\<forall>key w. init load_dotenv environ key tmo = Inr w \<longrightarrow> api_key w \<noteq> [])"
  by (auto simp: init_def Let_def split: option.splits if_splits)

theorem init_falsy_key_witness:
  "init (\<lambda>e. e) (\<lambda>k. None) (Some []) 1000 = Inl (ValueError ''OPENAI_API_KEY not found.'')
   \<and> init (\<lambda>e. e) (\<lambda>k. if k = ''OPENAI_API_KEY'' then Some [] else None) (Some []) 1000
       = Inl (ValueError ''OPENAI_API_KEY not found.'')
   \<and> init (\<lambda>e. e) (\<lambda>k. if k = ''OPENAI_API_KEY'' then Some ''sk-env'' else None) (Some []) 1000
       = Inr \<lparr>api_key = ''sk-env'', timeout = 1000\<rparr>"
proof -
  note t1 = init_falsy_key [of "\<lambda>e. e" "\<lambda>k. None" 1000]
  note t2 = init_falsy_key [of "\<lambda>e. e" "\<lambda>k. if k = ''OPENAI_API_KEY'' then Some [] else None" 1000]
  note t3 = init_falsy_key [of "\<lambda>e. e" "\<lambda>k. if k = ''OPENAI_API_KEY'' then Some ''sk-env'' else None" 1000]
  have a: "init (\<lambda>e. e) (\<lambda>k. None) (Some []) 1000 = Inl (ValueError ''OPENAI_API_KEY not found.'')"
    using t1 [THEN conjunct2, THEN conjunct1] by simp
  have b: "init (\<lambda>e. e) (\<lambda>k. if k = ''OPENAI_API_KEY'' then Some [] else None) (Some []) 1000
       = Inl (ValueError ''OPENAI_API_KEY not found.'')"
    using t2 [THEN conjunct2, THEN conjunct1] by simp
  have c: "init (\<lambda>e. e) (\<lambda>k. if k = ''OPENAI_API_KEY'' then Some ''sk-env'' else None) (Some []) 1000
       = Inr \<lparr>api_key = ''sk-env'', timeout = 1000\<rparr>"
    using t3 [THEN conjunct2, THEN conjunct2, THEN conjunct1] by simp
  from a b c show ?thesis by simp
qed

end
